theory Spec2Isabelle
  imports Main "HOL-Library.Word"
begin

section \<open>Errors\<close>

text \<open>
  Go errors as values.  \<open>ErrDumpInterrupted\<close> is \<^verbatim>\<open>netlink.ErrDumpInterrupted\<close>;
  \<open>ErrKernel\<close> is any other error produced by the netlink, netns or nl packages.
  \<^verbatim>\<open>fmt.Errorf\<close> is kept symbolic: the format string and its arguments.  A format
  ending in \<^verbatim>\<open>%w\<close> wraps its last argument (\<open>Errorf_w\<close>), a format ending in
  \<^verbatim>\<open>%v\<close> only prints it (\<open>Errorf_v\<close>), so that \<^verbatim>\<open>errors.Is\<close> looks through the
  first and not through the second.
\<close>

datatype fmtarg = Str string | IPv "8 word list"

datatype error =
    ErrDumpInterrupted
  | ErrKernel string
  | Errorf string "fmtarg list"
  | Errorf_v string "fmtarg list" error
  | Errorf_w string "fmtarg list" error

fun errors_Is :: "error \<Rightarrow> error \<Rightarrow> bool" where
  "errors_Is (Errorf_w f args e) target = (Errorf_w f args e = target \<or> errors_Is e target)"
| "errors_Is e target = (e = target)"

section \<open>Data of the netlink interface\<close>

type_synonym NsHandle = int
type_synonym Socket = nat
type_synonym Handle = nat

definition netns_None :: NsHandle where
  "netns_None = - 1"

text \<open>
  The fields of \<^verbatim>\<open>netlink.LinkAttrs\<close> that the relocation functions read or write.
  A \<^verbatim>\<open>netlink.Link\<close> is used through \<^verbatim>\<open>Attrs()\<close> only, so a link is its attributes.
  \<open>HardwareAddr = None\<close> is the nil slice.
\<close>

record LinkAttrs =
  Index :: int
  MTU :: int
  Name :: string
  HardwareAddr :: "8 word list option"
  Alias :: string
  GSOMaxSize :: "32 word"
  GROMaxSize :: "32 word"
  GSOIPv4MaxSize :: "32 word"
  GROIPv4MaxSize :: "32 word"

definition LinkAttrs_Named :: "string \<Rightarrow> LinkAttrs" where
  "LinkAttrs_Named n =
     \<lparr>Index = 0, MTU = 0, Name = n, HardwareAddr = None, Alias = [],
      GSOMaxSize = 0, GROMaxSize = 0, GSOIPv4MaxSize = 0, GROIPv4MaxSize = 0\<rparr>"

record IPNet =
  IP :: "8 word list"
  Mask :: "8 word list"

text \<open>
  \<^verbatim>\<open>resourceapi.NetworkDeviceData\<close>.  The hardware address and the addresses are kept as
  the values whose \<^verbatim>\<open>String()\<close> the source stores.
\<close>

record NetworkDeviceData =
  InterfaceName :: string
  HardwareAddress :: "8 word list option"
  IPs :: "8 word list list"

text \<open>The attributes of an \<^verbatim>\<open>RTM_NEWLINK\<close> request, in the order of \<^verbatim>\<open>req.AddData\<close>.\<close>

datatype rtattr =
    IfInfomsg "32 word"
  | IFLA_IFNAME string
  | IFLA_MTU "32 word"
  | IFLA_ADDRESS "8 word list"
  | IFLA_GSO_MAX_SIZE "32 word"
  | IFLA_GRO_MAX_SIZE "32 word"
  | IFLA_GSO_IPV4_MAX_SIZE "32 word"
  | IFLA_GRO_IPV4_MAX_SIZE "32 word"
  | IFLA_NET_NS_FD "32 word"

section \<open>Traces\<close>

text \<open>
  Everything the program does to the outside is an event of a trace, in the order it
  happens: the calls into the netlink, netns and nl packages, the operations on the
  driver's mutex, the error lines written with \<^verbatim>\<open>klog.Errorf\<close>, and the return of each
  call into the relocation functions with its arguments and result.
\<close>

datatype event =
    EvLock
  | EvUnlock
  | EvKlogErrorf string "fmtarg list" error
  | EvLinkByName string
  | EvLinkSetDown LinkAttrs
  | EvLinkSetUp LinkAttrs
  | EvGetFromPath string
  | EvGet
  | EvNsClose NsHandle
  | EvGetNetlinkSocketAt NsHandle NsHandle
  | EvSocketClose Socket
  | EvExecute Socket "rtattr list"
  | EvNewHandleAt NsHandle
  | EvHandleClose Handle
  | EvHandleLinkByName Handle string
  | EvHandleLinkSetDown Handle LinkAttrs
  | EvHandleLinkSetUp Handle LinkAttrs
  | EvHandleAddrAdd Handle LinkAttrs IPNet
  | EvNsAttachNetdev string string LinkAttrs "IPNet list" "error option"
  | EvNsDetachNetdev string string string "error option"

text \<open>
  The packages \<^verbatim>\<open>vishvananda/netlink\<close>, \<^verbatim>\<open>netlink/nl\<close> and \<^verbatim>\<open>vishvananda/netns\<close> are
  not part of the repository: they are a parameter.  Each function answers from the
  trace so far and its arguments, which covers every deterministic kernel.  A lookup
  returns the Go pair of a link and an error; the link is read only when the error is
  nil or the dump-interrupted one.
\<close>

record netlink =
  LinkByName :: "event list \<Rightarrow> string \<Rightarrow> LinkAttrs \<times> error option"
  LinkSetDown :: "event list \<Rightarrow> LinkAttrs \<Rightarrow> error option"
  LinkSetUp :: "event list \<Rightarrow> LinkAttrs \<Rightarrow> error option"
  GetFromPath :: "event list \<Rightarrow> string \<Rightarrow> error + NsHandle"
  Get :: "event list \<Rightarrow> error + NsHandle"
  GetNetlinkSocketAt :: "event list \<Rightarrow> NsHandle \<Rightarrow> NsHandle \<Rightarrow> error + Socket"
  Execute :: "event list \<Rightarrow> Socket \<Rightarrow> rtattr list \<Rightarrow> error option"
  NewHandleAt :: "event list \<Rightarrow> NsHandle \<Rightarrow> error + Handle"
  HandleLinkByName :: "event list \<Rightarrow> Handle \<Rightarrow> string \<Rightarrow> LinkAttrs \<times> error option"
  HandleLinkSetDown :: "event list \<Rightarrow> Handle \<Rightarrow> LinkAttrs \<Rightarrow> error option"
  HandleLinkSetUp :: "event list \<Rightarrow> Handle \<Rightarrow> LinkAttrs \<Rightarrow> error option"
  HandleAddrAdd :: "event list \<Rightarrow> Handle \<Rightarrow> LinkAttrs \<Rightarrow> IPNet \<Rightarrow> error option"

section \<open>pkg/net/hostdevice.go: NsAttachNetdev\<close>

text \<open>Lines 120-126: the loop over \<^verbatim>\<open>addresses\<close>.\<close>

fun attach_addresses ::
  "netlink \<Rightarrow> Handle \<Rightarrow> LinkAttrs \<Rightarrow> string \<Rightarrow> IPNet list \<Rightarrow> NetworkDeviceData \<Rightarrow> event list
     \<Rightarrow> (error + NetworkDeviceData) \<times> event list" where
  "attach_addresses nl nhNs nsLink containerNsPAth [] networkData h = (Inr networkData, h)"
| "attach_addresses nl nhNs nsLink containerNsPAth (ipnet # rest) networkData h =
     (let a = \<lparr>IP = IP ipnet, Mask = Mask ipnet\<rparr>;
          h1 = h @ [EvHandleAddrAdd nhNs nsLink a]
      in case HandleAddrAdd nl h nhNs nsLink a of
           Some err \<Rightarrow>
             (Inl (Errorf_w ''fail to set up address %s on namespace %s: %w''
                     [IPv (IP ipnet), Str containerNsPAth] err), h1)
         | None \<Rightarrow>
             attach_addresses nl nhNs nsLink containerNsPAth rest
               (networkData\<lparr>IPs := IPs networkData @ [IP ipnet]\<rparr>) h1)"

text \<open>Lines 110-133: the work inside the target namespace, through the handle \<^verbatim>\<open>nhNs\<close>.\<close>

definition attach_in_ns ::
  "netlink \<Rightarrow> Handle \<Rightarrow> string \<Rightarrow> string \<Rightarrow> IPNet list \<Rightarrow> event list
     \<Rightarrow> (error + NetworkDeviceData) \<times> event list" where
  "attach_in_ns nl nhNs ifName containerNsPAth addresses h =
     (let h1 = h @ [EvHandleLinkByName nhNs ifName] in
      case HandleLinkByName nl h nhNs ifName of (nsLink, err) \<Rightarrow>
     (if (case err of None \<Rightarrow> False | Some e \<Rightarrow> \<not> errors_Is e ErrDumpInterrupted)
      then (Inl (Errorf_w ''link not found for interface %s on namespace %s: %w''
                   [Str ifName, Str containerNsPAth] (the err)), h1)
      else
       (let networkData = \<lparr>InterfaceName = Name nsLink,
                            HardwareAddress = HardwareAddr nsLink, IPs = []\<rparr>
        in case attach_addresses nl nhNs nsLink containerNsPAth addresses networkData h1 of
             (Inl e, h2) \<Rightarrow> (Inl e, h2)
           | (Inr networkData', h2) \<Rightarrow>
               (case HandleLinkSetUp nl h2 nhNs nsLink of
                  Some err' \<Rightarrow>
                    (Inl (Errorf_w ''failt to set up interface %s on namespace %s: %w''
                            [Str (Name nsLink), Str containerNsPAth] err'),
                     h2 @ [EvHandleLinkSetUp nhNs nsLink])
                | None \<Rightarrow> (Inr networkData', h2 @ [EvHandleLinkSetUp nhNs nsLink])))))"

text \<open>Lines 54-57: the name the device gets.\<close>

definition attach_ifName :: "LinkAttrs \<Rightarrow> LinkAttrs \<Rightarrow> string" where
  "attach_ifName attrs newAttr = (if Name newAttr \<noteq> [] then Name newAttr else Name attrs)"

text \<open>
  Lines 50-95: the request.  \<^verbatim>\<open>int32(attrs.Index)\<close>, \<^verbatim>\<open>uint32(newAttr.MTU)\<close> and
  \<^verbatim>\<open>uint32(containerNs)\<close> truncate to 32 bits.
\<close>

definition attach_request :: "LinkAttrs \<Rightarrow> LinkAttrs \<Rightarrow> NsHandle \<Rightarrow> rtattr list" where
  "attach_request attrs newAttr containerNs =
     [IfInfomsg (word_of_int (Index attrs)), IFLA_IFNAME (attach_ifName attrs newAttr)]
     @ (if MTU newAttr \<noteq> 0 then [IFLA_MTU (word_of_int (MTU newAttr))] else [])
     @ (case HardwareAddr newAttr of None \<Rightarrow> [] | Some hw \<Rightarrow> [IFLA_ADDRESS hw])
     @ (if GSOMaxSize newAttr \<noteq> 0 then [IFLA_GSO_MAX_SIZE (GSOMaxSize newAttr)] else [])
     @ (if GROMaxSize newAttr \<noteq> 0 then [IFLA_GRO_MAX_SIZE (GROMaxSize newAttr)] else [])
     @ (if GSOIPv4MaxSize newAttr \<noteq> 0
        then [IFLA_GSO_IPV4_MAX_SIZE (GSOIPv4MaxSize newAttr)] else [])
     @ (if GROIPv4MaxSize newAttr \<noteq> 0
        then [IFLA_GRO_IPV4_MAX_SIZE (GROIPv4MaxSize newAttr)] else [])
     @ [IFLA_NET_NS_FD (word_of_int containerNs)]"

text \<open>
  Lines 46-108: with the socket \<^verbatim>\<open>s\<close> open, send the request and open the handle in the
  target namespace; \<^verbatim>\<open>nhNs.Close\<close> is deferred.
\<close>

definition attach_move ::
  "netlink \<Rightarrow> Socket \<Rightarrow> NsHandle \<Rightarrow> LinkAttrs \<Rightarrow> LinkAttrs \<Rightarrow> string \<Rightarrow> IPNet list \<Rightarrow> event list
     \<Rightarrow> (error + NetworkDeviceData) \<times> event list" where
  "attach_move nl s containerNs attrs newAttr containerNsPAth addresses h =
     (let ifName = attach_ifName attrs newAttr;
          req = attach_request attrs newAttr containerNs;
          err = Execute nl h s req;
          h1 = h @ [EvExecute s req]
      in if (case err of None \<Rightarrow> False | Some e \<Rightarrow> \<not> errors_Is e ErrDumpInterrupted)
         then (Inl (the err), h1)
         else
           case NewHandleAt nl h1 containerNs of
             Inl e \<Rightarrow> (Inl e, h1 @ [EvNewHandleAt containerNs])
           | Inr nhNs \<Rightarrow>
               (case attach_in_ns nl nhNs ifName containerNsPAth addresses
                       (h1 @ [EvNewHandleAt containerNs]) of
                  (r, h2) \<Rightarrow> (r, h2 @ [EvHandleClose nhNs])))"

text \<open>Lines 34-44: with the namespace open, get the socket; \<^verbatim>\<open>s.Close\<close> is deferred.\<close>

definition attach_socket ::
  "netlink \<Rightarrow> NsHandle \<Rightarrow> LinkAttrs \<Rightarrow> LinkAttrs \<Rightarrow> string \<Rightarrow> IPNet list \<Rightarrow> event list
     \<Rightarrow> (error + NetworkDeviceData) \<times> event list" where
  "attach_socket nl containerNs attrs newAttr containerNsPAth addresses h =
     (let h1 = h @ [EvGetNetlinkSocketAt netns_None netns_None] in
      case GetNetlinkSocketAt nl h netns_None netns_None of
        Inl e \<Rightarrow> (Inl (Errorf_w ''could not get network namespace handle: %w'' [] e), h1)
      | Inr s \<Rightarrow>
          (case attach_move nl s containerNs attrs newAttr containerNsPAth addresses h1 of
             (r, h2) \<Rightarrow> (r, h2 @ [EvSocketClose s])))"

text \<open>Lines 16-32, and the deferred \<^verbatim>\<open>containerNs.Close\<close>.\<close>

definition NsAttachNetdev ::
  "netlink \<Rightarrow> string \<Rightarrow> string \<Rightarrow> LinkAttrs \<Rightarrow> IPNet list \<Rightarrow> event list
     \<Rightarrow> (error + NetworkDeviceData) \<times> event list" where
  "NsAttachNetdev nl hostIfName containerNsPAth newAttr addresses h =
     (let h1 = h @ [EvLinkByName hostIfName] in
      case LinkByName nl h hostIfName of (hostDev, err) \<Rightarrow>
     (if (case err of None \<Rightarrow> False | Some e \<Rightarrow> \<not> errors_Is e ErrDumpInterrupted)
      then (Inl (the err), h1)
      else
       (let h2 = h1 @ [EvLinkSetDown hostDev] in
        case LinkSetDown nl h1 hostDev of
          Some e \<Rightarrow> (Inl (Errorf_v ''failed to set %q down: %v'' [Str (Name hostDev)] e), h2)
        | None \<Rightarrow>
            (let h3 = h2 @ [EvGetFromPath containerNsPAth] in
             case GetFromPath nl h2 containerNsPAth of
               Inl e \<Rightarrow> (Inl e, h3)
             | Inr containerNs \<Rightarrow>
                 (case attach_socket nl containerNs hostDev newAttr containerNsPAth addresses h3 of
                    (r, h4) \<Rightarrow> (r, h4 @ [EvNsClose containerNs]))))))"

section \<open>pkg/net/hostdevice.go: NsDetachNetdev\<close>

text \<open>
  Lines 162-166 and 189-192: the name the device gets on the way out.  \<^verbatim>\<open>attrs.Name\<close>
  is first overwritten with the alias when there is one; then \<^verbatim>\<open>outName\<close>, when not
  empty, replaces it.
\<close>

definition detach_ifName :: "LinkAttrs \<Rightarrow> string \<Rightarrow> string" where
  "detach_ifName nsLink outName =
     (let attrs = (if Alias nsLink \<noteq> [] then nsLink\<lparr>Name := Alias nsLink\<rparr> else nsLink);
          ifName = Name attrs
      in if outName \<noteq> [] then outName else ifName)"

text \<open>Lines 185-198: the request.\<close>

definition detach_request :: "LinkAttrs \<Rightarrow> string \<Rightarrow> NsHandle \<Rightarrow> rtattr list" where
  "detach_request nsLink outName rootNs =
     [IfInfomsg (word_of_int (Index nsLink)), IFLA_IFNAME (detach_ifName nsLink outName),
      IFLA_NET_NS_FD (word_of_int rootNs)]"

text \<open>Lines 179-215: with the socket open, move the device and set it up on the host.\<close>

definition detach_move ::
  "netlink \<Rightarrow> Socket \<Rightarrow> NsHandle \<Rightarrow> LinkAttrs \<Rightarrow> string \<Rightarrow> event list
     \<Rightarrow> error option \<times> event list" where
  "detach_move nl s rootNs nsLink outName h =
     (let ifName = detach_ifName nsLink outName;
          req = detach_request nsLink outName rootNs;
          h1 = h @ [EvExecute s req]
      in case Execute nl h s req of
           Some e \<Rightarrow> (Some e, h1)
         | None \<Rightarrow>
             (let h2 = h1 @ [EvLinkByName ifName] in
              case LinkByName nl h1 ifName of (hostDev, err) \<Rightarrow>
             (if (case err of None \<Rightarrow> False | Some e \<Rightarrow> \<not> errors_Is e ErrDumpInterrupted)
              then (err, h2)
              else
               (case LinkSetUp nl h2 hostDev of
                  Some e \<Rightarrow>
                    (Some (Errorf_v ''failed to set %q down: %v'' [Str (Name hostDev)] e),
                     h2 @ [EvLinkSetUp hostDev])
                | None \<Rightarrow> (None, h2 @ [EvLinkSetUp hostDev])))))"

text \<open>
  Lines 150-178: look the device up in the namespace, set it down, open the root
  namespace and the socket; \<^verbatim>\<open>rootNs.Close\<close> and \<^verbatim>\<open>s.Close\<close> are deferred.
\<close>

definition detach_in_ns ::
  "netlink \<Rightarrow> NsHandle \<Rightarrow> Handle \<Rightarrow> string \<Rightarrow> string \<Rightarrow> string \<Rightarrow> event list
     \<Rightarrow> error option \<times> event list" where
  "detach_in_ns nl containerNs nhNs containerNsPAth devName outName h =
     (let h1 = h @ [EvHandleLinkByName nhNs devName] in
      case HandleLinkByName nl h nhNs devName of (nsLink, err) \<Rightarrow>
     (case err of
        Some e \<Rightarrow>
          (Some (Errorf_w ''link not found for interface %s on namespace %s: %w''
                   [Str devName, Str containerNsPAth] e), h1)
      | None \<Rightarrow>
          (let h2 = h1 @ [EvHandleLinkSetDown nhNs nsLink] in
           case HandleLinkSetDown nl h1 nhNs nsLink of
             Some e \<Rightarrow> (Some e, h2)
           | None \<Rightarrow>
               (let h3 = h2 @ [EvGet] in
                case Get nl h2 of
                  Inl e \<Rightarrow> (Some e, h3)
                | Inr rootNs \<Rightarrow>
                    (let h4 = h3 @ [EvGetNetlinkSocketAt containerNs rootNs] in
                     case GetNetlinkSocketAt nl h3 containerNs rootNs of
                       Inl e \<Rightarrow>
                         (Some (Errorf_w ''could not get network namespace handle: %w'' [] e),
                          h4 @ [EvNsClose rootNs])
                     | Inr s \<Rightarrow>
                         (case detach_move nl s rootNs nsLink outName h4 of
                            (r, h5) \<Rightarrow> (r, h5 @ [EvSocketClose s, EvNsClose rootNs])))))))"

text \<open>
  Lines 136-148: open the namespace and the handle in it; \<^verbatim>\<open>containerNs.Close\<close> and
  \<^verbatim>\<open>nhNs.Close\<close> are deferred.
\<close>

definition NsDetachNetdev ::
  "netlink \<Rightarrow> string \<Rightarrow> string \<Rightarrow> string \<Rightarrow> event list \<Rightarrow> error option \<times> event list" where
  "NsDetachNetdev nl containerNsPAth devName outName h =
     (let h1 = h @ [EvGetFromPath containerNsPAth] in
      case GetFromPath nl h containerNsPAth of
        Inl e \<Rightarrow>
          (Some (Errorf_w
                   ''could not get network namespace from path %s for network device %s : %w''
                   [Str containerNsPAth, Str devName] e), h1)
      | Inr containerNs \<Rightarrow>
          (let h2 = h1 @ [EvNewHandleAt containerNs] in
           case NewHandleAt nl h1 containerNs of
             Inl e \<Rightarrow>
               (Some (Errorf_w ''could not get network namespace handle: %w'' [] e),
                h2 @ [EvNsClose containerNs])
           | Inr nhNs \<Rightarrow>
               (case detach_in_ns nl containerNs nhNs containerNsPAth devName outName h2 of
                  (r, h3) \<Rightarrow> (r, h3 @ [EvHandleClose nhNs, EvNsClose containerNs]))))"

section \<open>The driver: its data\<close>

type_synonym UID = string

record AllocatedDevice =
  Name :: string
  Attributes :: "string \<rightharpoonup> string"
  PoolName :: string
  Request :: string

text \<open>
  A value of type \<^verbatim>\<open>interface{}\<close>: nil, a string, or a value of another dynamic type
  (given by the name of that type).
\<close>

datatype any = AnyNil | AnyString string | AnyOther string

fun typeName :: "any \<Rightarrow> string" where
  "typeName AnyNil = ''<nil>''"
| "typeName (AnyString s) = ''string''"
| "typeName (AnyOther t) = t"

record SharedState =
  PodDeviceConfig :: "UID \<rightharpoonup> AllocatedDevice list"
  PreparedData :: "UID \<rightharpoonup> any"

text \<open>
  \<^verbatim>\<open>NetworkDriver\<close>: the clients and plugin handles play no part in the handlers; the
  mutex \<^verbatim>\<open>mu\<close> shows as the events \<open>EvLock\<close> and \<open>EvUnlock\<close> of the trace.
\<close>

record NetworkDriver =
  driverName :: string
  nodeName :: string
  sharedState :: SharedState

definition NewNetworkDriver :: "string \<Rightarrow> string \<Rightarrow> NetworkDriver" where
  "NewNetworkDriver driverName' nodeName' =
     \<lparr>driverName = driverName', nodeName = nodeName',
      sharedState = \<lparr>PodDeviceConfig = Map.empty, PreparedData = Map.empty\<rparr>\<rparr>"

text \<open>The parts of \<^verbatim>\<open>resourceapi.ResourceClaim\<close> that \<^verbatim>\<open>prepareDevice\<close> reads.\<close>

record DeviceRequestAllocationResult =
  Request :: string
  Driver :: string
  Pool :: string
  Device :: string

record DeviceAllocationResult =
  Results :: "DeviceRequestAllocationResult list"

record AllocationResult =
  Devices :: DeviceAllocationResult

record ResourceClaimStatus =
  Allocation :: "AllocationResult option"

record ResourceClaim =
  Name :: string
  UID :: UID
  Status :: ResourceClaimStatus

record NamespacedObject =
  Namespace :: string
  Name :: string
  UID :: UID

text \<open>\<^verbatim>\<open>kubeletplugin.PrepareResult\<close>; the driver sets \<^verbatim>\<open>Err\<close> only.\<close>

record PrepareResult =
  Err :: "error option"

text \<open>The parts of the NRI \<^verbatim>\<open>api.PodSandbox\<close> that the handlers read.\<close>

record LinuxNamespace =
  Type :: string
  Path :: string

record LinuxPodSandbox =
  Namespaces :: "LinuxNamespace list"

record PodSandbox =
  Name :: string
  Uid :: string
  Namespace :: string
  Linux :: "LinuxPodSandbox option"

text \<open>The generated getter is nil-safe.\<close>

definition GetNamespaces :: "LinuxPodSandbox option \<Rightarrow> LinuxNamespace list" where
  "GetNamespaces l = (case l of None \<Rightarrow> [] | Some x \<Rightarrow> Namespaces x)"

section \<open>The driver: the DRA plugin\<close>

definition prepareDevice :: "ResourceClaim \<Rightarrow> error + any" where
  "prepareDevice claim =
     (case Allocation (Status claim) of
        None \<Rightarrow> Inl (Errorf ''claim %s has no allocated devices'' [Str (ResourceClaim.Name claim)])
      | Some a \<Rightarrow>
          (case Results (Devices a) of
             [] \<Rightarrow>
               Inl (Errorf ''claim %s has no allocated devices'' [Str (ResourceClaim.Name claim)])
           | r # _ \<Rightarrow> Inr (AnyString (Device r))))"

definition unprepareDevice :: "NamespacedObject \<Rightarrow> error option" where
  "unprepareDevice claim = None"

fun PrepareResourceClaims_loop ::
  "ResourceClaim list \<Rightarrow> (UID \<rightharpoonup> PrepareResult) \<Rightarrow> NetworkDriver \<Rightarrow> event list
     \<Rightarrow> (UID \<rightharpoonup> PrepareResult) \<times> NetworkDriver \<times> event list" where
  "PrepareResourceClaims_loop [] results k h = (results, k, h)"
| "PrepareResourceClaims_loop (claim # rest) results k h =
     (case prepareDevice claim of
        Inl err \<Rightarrow>
          PrepareResourceClaims_loop rest
            (results(ResourceClaim.UID claim \<mapsto> \<lparr>Err = Some err\<rparr>)) k h
      | Inr preparedData \<Rightarrow>
          PrepareResourceClaims_loop rest
            (results(ResourceClaim.UID claim \<mapsto> \<lparr>Err = None\<rparr>))
            (k\<lparr>sharedState := (sharedState k)
                 \<lparr>PreparedData :=
                    (PreparedData (sharedState k))(ResourceClaim.UID claim \<mapsto> preparedData)\<rparr>\<rparr>)
            (h @ [EvLock, EvUnlock]))"

definition PrepareResourceClaims ::
  "ResourceClaim list \<Rightarrow> NetworkDriver \<Rightarrow> event list
     \<Rightarrow> ((UID \<rightharpoonup> PrepareResult) \<times> error option) \<times> NetworkDriver \<times> event list" where
  "PrepareResourceClaims claims k h =
     (case PrepareResourceClaims_loop claims Map.empty k h of
        (results, k', h') \<Rightarrow> ((results, None), k', h'))"

fun UnprepareResourceClaims_loop ::
  "NamespacedObject list \<Rightarrow> (UID \<rightharpoonup> error) \<Rightarrow> NetworkDriver \<Rightarrow> event list
     \<Rightarrow> (UID \<rightharpoonup> error) \<times> NetworkDriver \<times> event list" where
  "UnprepareResourceClaims_loop [] errors k h = (errors, k, h)"
| "UnprepareResourceClaims_loop (claim # rest) errors k h =
     UnprepareResourceClaims_loop rest
       (case unprepareDevice claim of
          Some err \<Rightarrow> errors(NamespacedObject.UID claim \<mapsto> err)
        | None \<Rightarrow> errors)
       (k\<lparr>sharedState := (sharedState k)
            \<lparr>PreparedData := (PreparedData (sharedState k))(NamespacedObject.UID claim := None)\<rparr>\<rparr>)
       (h @ [EvLock, EvUnlock])"

definition UnprepareResourceClaims ::
  "NamespacedObject list \<Rightarrow> NetworkDriver \<Rightarrow> event list
     \<Rightarrow> ((UID \<rightharpoonup> error) \<times> error option) \<times> NetworkDriver \<times> event list" where
  "UnprepareResourceClaims claims k h =
     (case UnprepareResourceClaims_loop claims Map.empty k h of
        (errors, k', h') \<Rightarrow> ((errors, None), k', h'))"

section \<open>The driver: the NRI handlers\<close>

text \<open>
  \<^verbatim>\<open>Synchronize\<close> returns no container updates and no error; the containers it is given
  are not read.
\<close>

definition Synchronize ::
  "PodSandbox list \<Rightarrow> NetworkDriver \<Rightarrow> event list \<Rightarrow> error option \<times> NetworkDriver \<times> event list" where
  "Synchronize pods k h = (None, k, h)"

fun getNetworkNamespace_loop :: "LinuxNamespace list \<Rightarrow> string" where
  "getNetworkNamespace_loop [] = []"
| "getNetworkNamespace_loop (ns # rest) =
     (if Type ns = ''network'' then Path ns else getNetworkNamespace_loop rest)"

definition getNetworkNamespace :: "PodSandbox \<Rightarrow> string" where
  "getNetworkNamespace pod = getNetworkNamespace_loop (GetNamespaces (Linux pod))"

definition configureDeviceForPod ::
  "netlink \<Rightarrow> AllocatedDevice \<Rightarrow> string \<Rightarrow> PodSandbox \<Rightarrow> any \<Rightarrow> event list
     \<Rightarrow> error option \<times> event list" where
  "configureDeviceForPod nl device networkNamespace podSandbox preparedData h =
     (case preparedData of
        AnyString hostDeviceName \<Rightarrow>
          (let podInterfaceName = hostDeviceName;
               newAttr = LinkAttrs_Named podInterfaceName
           in case NsAttachNetdev nl hostDeviceName networkNamespace newAttr [] h of
                (r, h') \<Rightarrow>
                  (let err = (case r of Inl e \<Rightarrow> Some e | Inr _ \<Rightarrow> None)
                   in (err, h' @ [EvNsAttachNetdev hostDeviceName networkNamespace newAttr [] err])))
      | _ \<Rightarrow>
          (Some (Errorf ''invalid prepared data type: expected string, got %T''
                   [Str (typeName preparedData)]), h))"

definition cleanupDeviceForPod ::
  "netlink \<Rightarrow> AllocatedDevice \<Rightarrow> string \<Rightarrow> PodSandbox \<Rightarrow> any \<Rightarrow> event list
     \<Rightarrow> error option \<times> event list" where
  "cleanupDeviceForPod nl device networkNamespace podSandbox preparedData h =
     (case preparedData of
        AnyString hostDeviceName \<Rightarrow>
          (let podInterfaceName = hostDeviceName
           in case NsDetachNetdev nl networkNamespace podInterfaceName hostDeviceName h of
                (err, h') \<Rightarrow>
                  (err, h' @ [EvNsDetachNetdev networkNamespace podInterfaceName hostDeviceName err]))
      | _ \<Rightarrow>
          (Some (Errorf ''invalid prepared data type: expected string, got %T''
                   [Str (typeName preparedData)]), h))"

text \<open>Reading a Go map at a key it does not have gives the zero value.\<close>

definition devices_of :: "NetworkDriver \<Rightarrow> UID \<Rightarrow> AllocatedDevice list" where
  "devices_of k podUID =
     (case PodDeviceConfig (sharedState k) podUID of None \<Rightarrow> [] | Some ds \<Rightarrow> ds)"

definition preparedData_of :: "NetworkDriver \<Rightarrow> UID \<Rightarrow> any" where
  "preparedData_of k podUID =
     (case PreparedData (sharedState k) podUID of None \<Rightarrow> AnyNil | Some v \<Rightarrow> v)"

fun RunPodSandbox_loop ::
  "netlink \<Rightarrow> AllocatedDevice list \<Rightarrow> string \<Rightarrow> PodSandbox \<Rightarrow> any \<Rightarrow> event list
     \<Rightarrow> error option \<times> event list" where
  "RunPodSandbox_loop nl [] networkNamespace pod preparedData h = (None, h)"
| "RunPodSandbox_loop nl (device # rest) networkNamespace pod preparedData h =
     (case configureDeviceForPod nl device networkNamespace pod preparedData h of
        (Some err, h') \<Rightarrow> (Some err, h')
      | (None, h') \<Rightarrow> RunPodSandbox_loop nl rest networkNamespace pod preparedData h')"

definition RunPodSandbox ::
  "netlink \<Rightarrow> PodSandbox \<Rightarrow> NetworkDriver \<Rightarrow> event list
     \<Rightarrow> error option \<times> NetworkDriver \<times> event list" where
  "RunPodSandbox nl pod k h =
     (let podUID = Uid pod;
          networkNamespace = getNetworkNamespace pod
      in if networkNamespace = []
         then (Some (Errorf ''pod %s/%s has no network namespace''
                       [Str (PodSandbox.Namespace pod), Str (PodSandbox.Name pod)]), k, h)
         else
           (let devices = devices_of k podUID;
                preparedData = preparedData_of k podUID
            in case RunPodSandbox_loop nl devices networkNamespace pod preparedData
                      (h @ [EvLock]) of
                 (r, h') \<Rightarrow> (r, k, h' @ [EvUnlock])))"

fun StopPodSandbox_loop ::
  "netlink \<Rightarrow> AllocatedDevice list \<Rightarrow> string \<Rightarrow> PodSandbox \<Rightarrow> any \<Rightarrow> event list \<Rightarrow> event list" where
  "StopPodSandbox_loop nl [] networkNamespace pod preparedData h = h"
| "StopPodSandbox_loop nl (device # rest) networkNamespace pod preparedData h =
     (case cleanupDeviceForPod nl device networkNamespace pod preparedData h of
        (Some err, h') \<Rightarrow>
          StopPodSandbox_loop nl rest networkNamespace pod preparedData
            (h' @ [EvKlogErrorf ''failed to cleanup device %s for pod %s: %v''
                     [Str (AllocatedDevice.Name device), Str (PodSandbox.Name pod)] err])
      | (None, h') \<Rightarrow> StopPodSandbox_loop nl rest networkNamespace pod preparedData h')"

definition StopPodSandbox ::
  "netlink \<Rightarrow> PodSandbox \<Rightarrow> NetworkDriver \<Rightarrow> event list
     \<Rightarrow> error option \<times> NetworkDriver \<times> event list" where
  "StopPodSandbox nl pod k h =
     (let podUID = Uid pod;
          networkNamespace = getNetworkNamespace pod;
          devices = devices_of k podUID;
          preparedData = preparedData_of k podUID;
          h' = StopPodSandbox_loop nl devices networkNamespace pod preparedData (h @ [EvLock])
      in (None, k, h' @ [EvUnlock]))"

definition RemovePodSandbox ::
  "PodSandbox \<Rightarrow> NetworkDriver \<Rightarrow> event list \<Rightarrow> error option \<times> NetworkDriver \<times> event list" where
  "RemovePodSandbox pod k h =
     (let podUID = Uid pod
      in (None,
          k\<lparr>sharedState :=
               \<lparr>PodDeviceConfig = (PodDeviceConfig (sharedState k))(podUID := None),
                PreparedData = (PreparedData (sharedState k))(podUID := None)\<rparr>\<rparr>,
          h @ [EvLock, EvUnlock]))"

section \<open>Runs of the driver\<close>

text \<open>
  The kubelet and the container runtime call the handlers in any order.  A run applies a
  list of such calls to a driver and its trace.  The other methods of the driver
  (\<^verbatim>\<open>Start\<close>, \<^verbatim>\<open>Stop\<close>, \<^verbatim>\<open>HandleError\<close>, \<^verbatim>\<open>runNRIPlugin\<close>, \<^verbatim>\<open>publishResources\<close>,
  \<^verbatim>\<open>getDevices\<close>) do not mention \<^verbatim>\<open>sharedState\<close>.
\<close>

datatype driver_op =
    OpPrepareResourceClaims "ResourceClaim list"
  | OpUnprepareResourceClaims "NamespacedObject list"
  | OpSynchronize "PodSandbox list"
  | OpRunPodSandbox PodSandbox
  | OpStopPodSandbox PodSandbox
  | OpRemovePodSandbox PodSandbox

fun apply_op ::
  "netlink \<Rightarrow> driver_op \<Rightarrow> NetworkDriver \<times> event list \<Rightarrow> NetworkDriver \<times> event list" where
  "apply_op nl (OpPrepareResourceClaims claims) (k, h) = snd (PrepareResourceClaims claims k h)"
| "apply_op nl (OpUnprepareResourceClaims claims) (k, h) = snd (UnprepareResourceClaims claims k h)"
| "apply_op nl (OpSynchronize pods) (k, h) = snd (Synchronize pods k h)"
| "apply_op nl (OpRunPodSandbox pod) (k, h) = snd (RunPodSandbox nl pod k h)"
| "apply_op nl (OpStopPodSandbox pod) (k, h) = snd (StopPodSandbox nl pod k h)"
| "apply_op nl (OpRemovePodSandbox pod) (k, h) = snd (RemovePodSandbox pod k h)"

definition run_driver ::
  "netlink \<Rightarrow> driver_op list \<Rightarrow> NetworkDriver \<times> event list \<Rightarrow> NetworkDriver \<times> event list" where
  "run_driver nl ops s = fold (apply_op nl) ops s"

section \<open>Reading traces\<close>

text \<open>The calls into the kernel packages, as opposed to the driver's own events.\<close>

fun kernel_event :: "event \<Rightarrow> bool" where
  "kernel_event EvLock = False"
| "kernel_event EvUnlock = False"
| "kernel_event (EvKlogErrorf f args e) = False"
| "kernel_event (EvNsAttachNetdev a b c d r) = False"
| "kernel_event (EvNsDetachNetdev a b c r) = False"
| "kernel_event e = True"

text \<open>The calls of \<^verbatim>\<open>NsDetachNetdev\<close> in a trace, each with its arguments and its result.\<close>

fun detach_calls :: "event list \<Rightarrow> (string \<times> string \<times> string \<times> error option) list" where
  "detach_calls [] = []"
| "detach_calls (EvNsDetachNetdev ns d out r # es) = (ns, d, out, r) # detach_calls es"
| "detach_calls (e # es) = detach_calls es"

definition call_args ::
  "string \<times> string \<times> string \<times> error option \<Rightarrow> string \<times> string \<times> string" where
  "call_args c = (case c of (ns, d, out, r) \<Rightarrow> (ns, d, out))"

text \<open>The errors of the calls that failed, in order.\<close>

definition failures :: "(string \<times> string \<times> string \<times> error option) list \<Rightarrow> error list" where
  "failures calls =
     concat (map (\<lambda>(ns, d, out, r). case r of None \<Rightarrow> [] | Some e \<Rightarrow> [e]) calls)"

text \<open>The errors written to the log, in order.\<close>

fun klog_errors :: "event list \<Rightarrow> error list" where
  "klog_errors [] = []"
| "klog_errors (EvKlogErrorf f args e # es) = e # klog_errors es"
| "klog_errors (e # es) = klog_errors es"

text \<open>
  Whether every \<^verbatim>\<open>NsDetachNetdev\<close> entry in the events added to a trace \<open>h\<close> stands for
  a call that was made: the trace up to the entry is what the relocation function
  itself returns, together with the entry's result, when it is run with the entry's
  arguments from some earlier point of that trace.
\<close>

fun detach_calls_real :: "netlink \<Rightarrow> event list \<Rightarrow> event list \<Rightarrow> bool" where
  "detach_calls_real nl h [] = True"
| "detach_calls_real nl h (EvNsDetachNetdev ns d out r # es) =
     (list_ex (\<lambda>i. NsDetachNetdev nl ns d out (take i h) = (r, h)) [0..<Suc (length h)]
      \<and> detach_calls_real nl (h @ [EvNsDetachNetdev ns d out r]) es)"
| "detach_calls_real nl h (e # es) = detach_calls_real nl (h @ [e]) es"


fun io_inside_lock :: "bool \<Rightarrow> event list \<Rightarrow> bool" where
  "io_inside_lock held [] = True"
| "io_inside_lock held (EvLock # es) = io_inside_lock True es"
| "io_inside_lock held (EvUnlock # es) = io_inside_lock False es"
| "io_inside_lock held (e # es) = ((kernel_event e \<longrightarrow> held) \<and> io_inside_lock held es)"

section \<open>Kernels and workloads to run the program on\<close>

text \<open>
  A kernel in which every call succeeds; the two lookups, on the host and inside the
  namespace, answer as given.
\<close>

definition kernel :: "LinkAttrs \<times> error option \<Rightarrow> LinkAttrs \<times> error option \<Rightarrow> netlink" where
  "kernel hostLookup nsLookup =
     \<lparr>LinkByName = (\<lambda>h n. hostLookup),
      LinkSetDown = (\<lambda>h l. None),
      LinkSetUp = (\<lambda>h l. None),
      GetFromPath = (\<lambda>h p. Inr 3),
      Get = (\<lambda>h. Inr 4),
      GetNetlinkSocketAt = (\<lambda>h a b. Inr 2),
      Execute = (\<lambda>h s req. None),
      NewHandleAt = (\<lambda>h ns. Inr 1),
      HandleLinkByName = (\<lambda>h hd n. nsLookup),
      HandleLinkSetDown = (\<lambda>h hd l. None),
      HandleLinkSetUp = (\<lambda>h hd l. None),
      HandleAddrAdd = (\<lambda>h hd l a. None)\<rparr>"

definition link_aliased :: LinkAttrs where
  "link_aliased = (LinkAttrs_Named ''net1'')\<lparr>Index := 7, Alias := ''eth-phys0''\<rparr>"

definition link_plain :: LinkAttrs where
  "link_plain = (LinkAttrs_Named ''eth-phys0'')\<lparr>Index := 7\<rparr>"

text \<open>A kernel in which opening a namespace path fails the first time it is tried.\<close>

definition kernel_flaky :: netlink where
  "kernel_flaky =
     (kernel (link_plain, None) (link_plain, None))
       \<lparr>GetFromPath := (\<lambda>h p. if EvGetFromPath p \<in> set h then Inr 3
                               else Inl (ErrKernel ''no such file or directory''))\<rparr>"

definition pod_w1 :: PodSandbox where
  "pod_w1 =
     \<lparr>PodSandbox.Name = ''pod1'', Uid = ''uid-w1'', PodSandbox.Namespace = ''default'',
      Linux = Some \<lparr>Namespaces = [\<lparr>Type = ''pid'', Path = ''/proc/7/ns/pid''\<rparr>,
                                   \<lparr>Type = ''network'', Path = ''/run/ns/w1''\<rparr>]\<rparr>\<rparr>"

definition pod_nonet :: PodSandbox where
  "pod_nonet =
     \<lparr>PodSandbox.Name = ''pod1'', Uid = ''uid-w1'', PodSandbox.Namespace = ''default'',
      Linux = Some \<lparr>Namespaces = [\<lparr>Type = ''pid'', Path = ''/proc/7/ns/pid''\<rparr>]\<rparr>\<rparr>"

definition device_A :: AllocatedDevice where
  "device_A = \<lparr>AllocatedDevice.Name = ''A'', Attributes = Map.empty, PoolName = ''node1'',
               AllocatedDevice.Request = ''req-a''\<rparr>"

definition device_B :: AllocatedDevice where
  "device_B = \<lparr>AllocatedDevice.Name = ''B'', Attributes = Map.empty, PoolName = ''node1'',
               AllocatedDevice.Request = ''req-b''\<rparr>"

text \<open>A driver holding two allocated devices and a prepared device name for one workload.\<close>

definition driver_w1 :: NetworkDriver where
  "driver_w1 =
     \<lparr>driverName = ''hostdevice.k8s.io'', nodeName = ''node1'',
      sharedState = \<lparr>PodDeviceConfig = [''uid-w1'' \<mapsto> [device_A, device_B]],
                     PreparedData = [''uid-w1'' \<mapsto> AnyString ''eth-phys0'']\<rparr>\<rparr>"

text \<open>A driver holding the same two devices and no prepared data.\<close>

definition driver_unprepared :: NetworkDriver where
  "driver_unprepared =
     \<lparr>driverName = ''hostdevice.k8s.io'', nodeName = ''node1'',
      sharedState = \<lparr>PodDeviceConfig = [''uid-w1'' \<mapsto> [device_A, device_B]],
                     PreparedData = Map.empty\<rparr>\<rparr>"

definition claim_w1 :: ResourceClaim where
  "claim_w1 =
     \<lparr>ResourceClaim.Name = ''claim1'', ResourceClaim.UID = ''uid-w1'',
      Status = \<lparr>Allocation = Some \<lparr>Devices = \<lparr>Results =
        [\<lparr>DeviceRequestAllocationResult.Request = ''req-a'', Driver = ''hostdevice.k8s.io'',
          Pool = ''node1'', Device = ''eth-phys0''\<rparr>]\<rparr>\<rparr>\<rparr>\<rparr>"

definition claim_empty :: ResourceClaim where
  "claim_empty =
     \<lparr>ResourceClaim.Name = ''claim2'', ResourceClaim.UID = ''uid-w2'',
      Status = \<lparr>Allocation = Some \<lparr>Devices = \<lparr>Results = []\<rparr>\<rparr>\<rparr>\<rparr>"

definition object_w1 :: NamespacedObject where
  "object_w1 = \<lparr>NamespacedObject.Namespace = ''default'', NamespacedObject.Name = ''claim1'',
                NamespacedObject.UID = ''uid-w1''\<rparr>"

section \<open>What the relocation functions add to a trace\<close>

lemma detach_ifName_eq:
  "detach_ifName nsLink outName =
     (if outName \<noteq> [] then outName
      else if Alias nsLink \<noteq> [] then Alias nsLink else LinkAttrs.Name nsLink)"
  by (simp add: detach_ifName_def)

lemma detach_move_events:
  assumes "detach_move nl s rootNs nsLink outName h = (r, h')"
  shows "\<exists>new. h' = h @ new \<and> list_all kernel_event new
           \<and> (\<forall>s' req. EvExecute s' req \<in> set new \<longrightarrow> req = detach_request nsLink outName rootNs)"
  using assms unfolding detach_move_def Let_def
  by (auto split: option.splits prod.splits if_splits)

lemma detach_in_ns_events:
  assumes "detach_in_ns nl containerNs nhNs containerNsPAth devName outName h = (r, h')"
  shows "\<exists>new. h' = h @ new \<and> list_all kernel_event new
           \<and> (\<forall>s' req. EvExecute s' req \<in> set new \<longrightarrow>
                 (\<exists>hd' nsLink rootNs. EvHandleLinkSetDown hd' nsLink \<in> set new
                     \<and> req = detach_request nsLink outName rootNs))"
  using assms unfolding detach_in_ns_def Let_def
  by (auto split: option.splits prod.splits sum.splits dest!: detach_move_events) blast

lemma NsDetachNetdev_events:
  assumes "NsDetachNetdev nl containerNsPAth devName outName h = (r, h')"
  shows "\<exists>new. h' = h @ new \<and> list_all kernel_event new
           \<and> (\<forall>s' req. EvExecute s' req \<in> set new \<longrightarrow>
                 (\<exists>hd' nsLink rootNs. EvHandleLinkSetDown hd' nsLink \<in> set new
                     \<and> req = detach_request nsLink outName rootNs))"
  using assms unfolding NsDetachNetdev_def Let_def
  by (auto split: option.splits prod.splits sum.splits dest!: detach_in_ns_events)

lemma attach_addresses_events:
  "attach_addresses nl nhNs nsLink p addresses nd h = (r, h') \<Longrightarrow>
     \<exists>new. h' = h @ new \<and> list_all kernel_event new"
proof (induction addresses arbitrary: nd h)
  case Nil
  then show ?case by simp
next
  case (Cons a as)
  then show ?case
    by (fastforce simp: Let_def split: option.splits)
qed

lemma attach_in_ns_events:
  "attach_in_ns nl nhNs ifName p addresses h = (r, h') \<Longrightarrow>
     \<exists>new. h' = h @ new \<and> list_all kernel_event new"
  unfolding attach_in_ns_def Let_def
  by (auto split: option.splits prod.splits sum.splits if_splits dest!: attach_addresses_events)

lemma attach_move_events:
  "attach_move nl s containerNs attrs newAttr p addresses h = (r, h') \<Longrightarrow>
     \<exists>new. h' = h @ new \<and> list_all kernel_event new"
  unfolding attach_move_def Let_def
  by (auto split: option.splits prod.splits sum.splits if_splits dest!: attach_in_ns_events)

lemma attach_socket_events:
  "attach_socket nl containerNs attrs newAttr p addresses h = (r, h') \<Longrightarrow>
     \<exists>new. h' = h @ new \<and> list_all kernel_event new"
  unfolding attach_socket_def Let_def
  by (auto split: option.splits prod.splits sum.splits if_splits dest!: attach_move_events)

lemma NsAttachNetdev_events:
  "NsAttachNetdev nl hostIfName p newAttr addresses h = (r, h') \<Longrightarrow>
     \<exists>new. h' = h @ new \<and> list_all kernel_event new"
  unfolding NsAttachNetdev_def Let_def
  by (auto split: option.splits prod.splits sum.splits if_splits dest!: attach_socket_events)

section \<open>Detach: the outgoing name\<close>

text \<open>
  Claim C1 as stated: with a non-empty \<^verbatim>\<open>restoreName\<close>, a device that carries an alias
  leaves under its alias.  It fails: the device below carries the alias \<open>eth-phys0\<close>,
  the restore name is \<open>eth0\<close>, and the request sent to the kernel names it \<open>eth0\<close>.
\<close>

theorem NsDetachNetdev_alias_counterexample:
  "Alias link_aliased = ''eth-phys0'' \<and>
   NsDetachNetdev (kernel (link_plain, None) (link_aliased, None))
      ''/run/ns/w1'' ''net1'' ''eth0'' [] =
     (None,
      [EvGetFromPath ''/run/ns/w1'', EvNewHandleAt 3, EvHandleLinkByName 1 ''net1'',
       EvHandleLinkSetDown 1 link_aliased, EvGet, EvGetNetlinkSocketAt 3 4,
       EvExecute 2 [IfInfomsg 7, IFLA_IFNAME ''eth0'', IFLA_NET_NS_FD 4],
       EvLinkByName ''eth0'', EvLinkSetUp link_plain,
       EvSocketClose 2, EvNsClose 4, EvHandleClose 1, EvNsClose 3])"
  by (simp add: NsDetachNetdev_def detach_in_ns_def detach_move_def detach_request_def
        detach_ifName_def kernel_def link_aliased_def link_plain_def LinkAttrs_Named_def)

text \<open>
  Claim C1, amended: every rename-and-move request that \<^verbatim>\<open>NsDetachNetdev\<close> sends is for
  the device it found and set down in the namespace, and names it \<^verbatim>\<open>outName\<close> when
  that is not empty; the alias is used only when \<^verbatim>\<open>outName\<close> is empty and the alias is
  not; with both empty the device keeps its name.
\<close>

theorem NsDetachNetdev_outgoing_name:
  assumes "EvExecute s req
             \<in> set (drop (length h) (snd (NsDetachNetdev nl containerNsPAth devName outName h)))"
  shows "\<exists>nhNs nsLink rootNs.
           EvHandleLinkSetDown nhNs nsLink
             \<in> set (drop (length h) (snd (NsDetachNetdev nl containerNsPAth devName outName h)))
           \<and> req = [IfInfomsg (word_of_int (Index nsLink)),
                    IFLA_IFNAME (if outName \<noteq> [] then outName
                                 else if Alias nsLink \<noteq> [] then Alias nsLink
                                 else LinkAttrs.Name nsLink),
                    IFLA_NET_NS_FD (word_of_int rootNs)]"
proof -
  obtain r h' where e: "NsDetachNetdev nl containerNsPAth devName outName h = (r, h')"
    by (cases "NsDetachNetdev nl containerNsPAth devName outName h")
  from NsDetachNetdev_events [OF e] obtain new where
    new: "h' = h @ new"
    and ex: "\<forall>s' req. EvExecute s' req \<in> set new \<longrightarrow>
                 (\<exists>hd' nsLink rootNs. EvHandleLinkSetDown hd' nsLink \<in> set new
                     \<and> req = detach_request nsLink outName rootNs)"
    by blast
  from assms have "EvExecute s req \<in> set new"
    by (simp add: e new)
  with ex obtain hd' nsLink rootNs where
    "EvHandleLinkSetDown hd' nsLink \<in> set new" "req = detach_request nsLink outName rootNs"
    by blast
  then show ?thesis
    by (auto simp: e new detach_request_def detach_ifName_eq)
qed

text \<open>
  The amended claim C1 at work: with an empty \<^verbatim>\<open>outName\<close> the aliased device leaves
  under its alias.
\<close>

theorem NsDetachNetdev_outgoing_name_witness:
  "EvExecute 2 [IfInfomsg 7, IFLA_IFNAME ''eth-phys0'', IFLA_NET_NS_FD 4]
     \<in> set (drop (length ([] :: event list))
          (snd (NsDetachNetdev (kernel (link_plain, None) (link_aliased, None))
                  ''/run/ns/w1'' ''net1'' [] [])))
   \<and> (\<exists>nhNs nsLink rootNs.
         EvHandleLinkSetDown nhNs nsLink
           \<in> set (drop (length ([] :: event list))
                (snd (NsDetachNetdev (kernel (link_plain, None) (link_aliased, None))
                        ''/run/ns/w1'' ''net1'' [] [])))
         \<and> [IfInfomsg 7, IFLA_IFNAME ''eth-phys0'', IFLA_NET_NS_FD 4] =
             [IfInfomsg (word_of_int (Index nsLink)),
              IFLA_IFNAME (if ([] :: string) \<noteq> [] then []
                           else if Alias nsLink \<noteq> [] then Alias nsLink
                           else LinkAttrs.Name nsLink),
              IFLA_NET_NS_FD (word_of_int rootNs)])"
proof -
  have m: "EvExecute 2 [IfInfomsg 7, IFLA_IFNAME ''eth-phys0'', IFLA_NET_NS_FD 4]
     \<in> set (drop (length ([] :: event list))
          (snd (NsDetachNetdev (kernel (link_plain, None) (link_aliased, None))
                  ''/run/ns/w1'' ''net1'' [] [])))"
    by (simp add: NsDetachNetdev_def detach_in_ns_def detach_move_def detach_request_def
        detach_ifName_def kernel_def link_aliased_def link_plain_def LinkAttrs_Named_def)
  from NsDetachNetdev_outgoing_name [OF m] m show ?thesis
    by blast
qed

section \<open>The dump-interrupted condition\<close>

text \<open>
  Claim C2, at the input where the program departs from it: the lookup of the device
  inside the namespace reports the dump-interrupted condition together with the link.
  \<^verbatim>\<open>NsDetachNetdev\<close> stops and returns an error that wraps the condition, while
  \<^verbatim>\<open>NsAttachNetdev\<close>, given the same answer by the same kernel, carries on to the end.
\<close>

theorem NsDetachNetdev_surfaces_dump_interrupted:
  "NsDetachNetdev (kernel (link_plain, None) (link_plain, Some ErrDumpInterrupted))
      ''/run/ns/w1'' ''eth-phys0'' ''eth-phys0'' [] =
     (Some (Errorf_w ''link not found for interface %s on namespace %s: %w''
              [Str ''eth-phys0'', Str ''/run/ns/w1''] ErrDumpInterrupted),
      [EvGetFromPath ''/run/ns/w1'', EvNewHandleAt 3, EvHandleLinkByName 1 ''eth-phys0'',
       EvHandleClose 1, EvNsClose 3])
   \<and> errors_Is (Errorf_w ''link not found for interface %s on namespace %s: %w''
                  [Str ''eth-phys0'', Str ''/run/ns/w1''] ErrDumpInterrupted) ErrDumpInterrupted
   \<and> fst (NsAttachNetdev (kernel (link_plain, None) (link_plain, Some ErrDumpInterrupted))
             ''eth-phys0'' ''/run/ns/w1'' (LinkAttrs_Named ''eth-phys0'') [] []) =
       Inr \<lparr>InterfaceName = ''eth-phys0'', HardwareAddress = None, IPs = []\<rparr>"
  by (simp add: NsDetachNetdev_def detach_in_ns_def kernel_def link_plain_def LinkAttrs_Named_def
        NsAttachNetdev_def attach_socket_def attach_move_def attach_in_ns_def attach_request_def
        attach_ifName_def)

section \<open>Removal purges the store\<close>

text \<open>
  Claim C5: whatever the store held before and whatever happened to the devices, after
  \<^verbatim>\<open>RemovePodSandbox\<close> the store has no entry for the pod, neither allocated devices nor
  prepared data, and the handler returns no error.
\<close>

theorem RemovePodSandbox_purges:
  "(case RemovePodSandbox pod k h of
      (r, k', h') \<Rightarrow>
        r = None \<and> PodDeviceConfig (sharedState k') (Uid pod) = None
        \<and> PreparedData (sharedState k') (Uid pod) = None)"
  by (simp add: RemovePodSandbox_def Let_def)

text \<open>Claim C5 on a store that holds both entries for the pod.\<close>

theorem RemovePodSandbox_purges_witness:
  "PodDeviceConfig (sharedState driver_w1) (Uid pod_w1) = Some [device_A, device_B]
   \<and> (case RemovePodSandbox pod_w1 driver_w1 [] of
      (r, k', h') \<Rightarrow>
        r = None \<and> PodDeviceConfig (sharedState k') (Uid pod_w1) = None
        \<and> PreparedData (sharedState k') (Uid pod_w1) = None)"
  using RemovePodSandbox_purges [of pod_w1 driver_w1 "[]"]
  by (simp add: driver_w1_def pod_w1_def)

section \<open>Unprepare is idempotent\<close>

lemma UnprepareResourceClaims_loop_eq:
  "UnprepareResourceClaims_loop claims errors k h =
     (errors,
      k\<lparr>sharedState := (sharedState k)
           \<lparr>PreparedData := PreparedData (sharedState k) |` (- NamespacedObject.UID ` set claims)\<rparr>\<rparr>,
      h @ concat (map (\<lambda>c. [EvLock, EvUnlock]) claims))"
proof (induction claims arbitrary: errors k h)
  case Nil
  show ?case by simp
next
  case (Cons c cs)
  show ?case
    apply (simp add: Cons.IH unprepareDevice_def)
    apply (rule arg_cong [where f = "\<lambda>p. k\<lparr>sharedState := (sharedState k)\<lparr>PreparedData := p\<rparr>\<rparr>"])
    apply (auto simp: fun_eq_iff restrict_map_def)
    done
qed

text \<open>
  Claim C6: \<^verbatim>\<open>UnprepareResourceClaims\<close>, called twice in a row on the same claims,
  whether they were ever prepared or not, reports no error for any claim either time,
  leaves no prepared data for them, and the second call leaves the driver as the first
  one did.
\<close>

theorem UnprepareResourceClaims_idempotent:
  "(case UnprepareResourceClaims claims k h of
      ((errors1, r1), k1, h1) \<Rightarrow>
        (case UnprepareResourceClaims claims k1 h1 of
           ((errors2, r2), k2, h2) \<Rightarrow>
             errors1 = Map.empty \<and> r1 = None \<and> errors2 = Map.empty \<and> r2 = None
             \<and> k2 = k1
             \<and> (\<forall>c \<in> set claims. PreparedData (sharedState k1) (NamespacedObject.UID c) = None)))"
  by (simp add: UnprepareResourceClaims_def UnprepareResourceClaims_loop_eq)

text \<open>Claim C6 on a claim that was never prepared.\<close>

theorem UnprepareResourceClaims_idempotent_witness:
  "object_w1 \<in> set [object_w1]
   \<and> PreparedData (sharedState (NewNetworkDriver ''hostdevice.k8s.io'' ''node1''))
        (NamespacedObject.UID object_w1) = None
   \<and> (case UnprepareResourceClaims [object_w1] (NewNetworkDriver ''hostdevice.k8s.io'' ''node1'') [] of
      ((errors1, r1), k1, h1) \<Rightarrow>
        (case UnprepareResourceClaims [object_w1] k1 h1 of
           ((errors2, r2), k2, h2) \<Rightarrow>
             errors1 = Map.empty \<and> r1 = None \<and> errors2 = Map.empty \<and> r2 = None
             \<and> k2 = k1
             \<and> (\<forall>c \<in> set [object_w1]. PreparedData (sharedState k1) (NamespacedObject.UID c) = None)))"
  using UnprepareResourceClaims_idempotent
          [of "[object_w1]" "NewNetworkDriver ''hostdevice.k8s.io'' ''node1''" "[]"]
  by (simp add: NewNetworkDriver_def)

section \<open>A pod without a network namespace\<close>

lemma getNetworkNamespace_loop_none:
  "\<forall>ns \<in> set nss. Type ns \<noteq> ''network'' \<Longrightarrow> getNetworkNamespace_loop nss = []"
  by (induction nss) auto

text \<open>
  Claim C8: when the sandbox has no namespace of type \<open>network\<close>, \<^verbatim>\<open>RunPodSandbox\<close>
  returns an error, and it does so before it takes the lock or calls the kernel: the
  trace and the driver are unchanged, so no device is attached.
\<close>

theorem RunPodSandbox_no_namespace:
  assumes "\<forall>ns \<in> set (GetNamespaces (Linux pod)). Type ns \<noteq> ''network''"
  shows "RunPodSandbox nl pod k h =
           (Some (Errorf ''pod %s/%s has no network namespace''
                    [Str (PodSandbox.Namespace pod), Str (PodSandbox.Name pod)]), k, h)"
  using getNetworkNamespace_loop_none [OF assms]
  by (simp add: RunPodSandbox_def getNetworkNamespace_def)

text \<open>Claim C8 on a pod with a pid namespace only, with two devices allocated to it.\<close>

theorem RunPodSandbox_no_namespace_witness:
  "map Type (GetNamespaces (Linux pod_nonet)) = [''pid'']
   \<and> devices_of driver_w1 (Uid pod_nonet) = [device_A, device_B]
   \<and> RunPodSandbox kernel_flaky pod_nonet driver_w1 [] =
       (Some (Errorf ''pod %s/%s has no network namespace'' [Str ''default'', Str ''pod1'']),
        driver_w1, [])"
proof -
  have a: "\<forall>ns \<in> set (GetNamespaces (Linux pod_nonet)). Type ns \<noteq> ''network''"
    by (simp add: pod_nonet_def GetNamespaces_def)
  have b: "devices_of driver_w1 (Uid pod_nonet) = [device_A, device_B]"
    by (simp add: devices_of_def driver_w1_def pod_nonet_def)
  have c: "map Type (GetNamespaces (Linux pod_nonet)) = [''pid'']"
    by (simp add: pod_nonet_def GetNamespaces_def)
  from RunPodSandbox_no_namespace [OF a, of kernel_flaky driver_w1 "[]"] b c show ?thesis
    by (simp add: pod_nonet_def)
qed

section \<open>Prepare on a claim without devices\<close>

lemma PrepareResourceClaims_loop_no_devices:
  assumes "\<forall>c \<in> set claims. ResourceClaim.UID c = u \<longrightarrow>
             (case Allocation (Status c) of None \<Rightarrow> True | Some a \<Rightarrow> Results (Devices a) = [])"
      and "PrepareResourceClaims_loop claims results k h = (results', k', h')"
  shows "PreparedData (sharedState k') u = PreparedData (sharedState k) u
         \<and> PodDeviceConfig (sharedState k') = PodDeviceConfig (sharedState k)
         \<and> (if \<exists>c \<in> set claims. ResourceClaim.UID c = u
            then \<exists>c \<in> set claims. ResourceClaim.UID c = u \<and>
                   results' u = Some \<lparr>Err = Some (Errorf ''claim %s has no allocated devices''
                                                      [Str (ResourceClaim.Name c)])\<rparr>
            else results' u = results u)"
  using assms
proof (induction claims arbitrary: results k h)
  case Nil
  then show ?case by simp
next
  case (Cons claim rest)
  show ?case
  proof (cases "prepareDevice claim")
    case (Inl err)
    with Cons.prems(2) have l: "PrepareResourceClaims_loop rest
            (results(ResourceClaim.UID claim \<mapsto> \<lparr>Err = Some err\<rparr>)) k h = (results', k', h')"
      by simp
    have e: "ResourceClaim.UID claim = u \<Longrightarrow>
               err = Errorf ''claim %s has no allocated devices'' [Str (ResourceClaim.Name claim)]"
      using Inl by (auto simp: prepareDevice_def split: option.splits list.splits)
    from Cons.IH [OF _ l] Cons.prems(1) e show ?thesis
      by (auto split: if_splits)
  next
    case (Inr preparedData)
    have ne: "ResourceClaim.UID claim \<noteq> u"
      using Inr Cons.prems(1) by (auto simp: prepareDevice_def split: option.splits list.splits)
    from Inr Cons.prems(2) have l: "PrepareResourceClaims_loop rest
            (results(ResourceClaim.UID claim \<mapsto> \<lparr>Err = None\<rparr>))
            (k\<lparr>sharedState := (sharedState k)
                 \<lparr>PreparedData :=
                    (PreparedData (sharedState k))(ResourceClaim.UID claim \<mapsto> preparedData)\<rparr>\<rparr>)
            (h @ [EvLock, EvUnlock]) = (results', k', h')"
      by simp
    from Cons.IH [OF _ l] Cons.prems(1) ne show ?thesis
      by (auto split: if_splits)
  qed
qed

text \<open>
  Claim C4: for a claim whose allocation is missing or grants no device,
  \<^verbatim>\<open>prepareDevice\<close> returns the error \<open>claim ... has no allocated devices\<close>; the round of
  the loop of \<^verbatim>\<open>PrepareResourceClaims\<close> for it records the error under the claim's UID and
  leaves the driver and the trace alone (no lock is taken, nothing is stored); and at
  the end of the batch the result under that UID is the error and the prepared data
  under it is what it was before the call.  The results are keyed by UID, so the last
  part is about a UID all of whose claims in the batch are without devices, as when
  the UIDs of a batch are distinct.
\<close>

theorem PrepareResourceClaims_no_devices:
  assumes "case Allocation (Status claim) of None \<Rightarrow> True | Some a \<Rightarrow> Results (Devices a) = []"
  shows "prepareDevice claim =
           Inl (Errorf ''claim %s has no allocated devices'' [Str (ResourceClaim.Name claim)])
         \<and> PrepareResourceClaims_loop (claim # rest) results0 k h =
             PrepareResourceClaims_loop rest
               (results0(ResourceClaim.UID claim \<mapsto>
                  \<lparr>Err = Some (Errorf ''claim %s has no allocated devices''
                                  [Str (ResourceClaim.Name claim)])\<rparr>)) k h
         \<and> (claim \<in> set claims \<longrightarrow>
             (\<forall>c \<in> set claims. ResourceClaim.UID c = ResourceClaim.UID claim \<longrightarrow>
                (case Allocation (Status c) of None \<Rightarrow> True | Some a \<Rightarrow> Results (Devices a) = [])) \<longrightarrow>
             (case PrepareResourceClaims claims k h of
                ((results, r), k', h') \<Rightarrow>
                  r = None
                  \<and> (\<exists>c \<in> set claims. ResourceClaim.UID c = ResourceClaim.UID claim \<and>
                        results (ResourceClaim.UID claim) =
                          Some \<lparr>Err = Some (Errorf ''claim %s has no allocated devices''
                                               [Str (ResourceClaim.Name c)])\<rparr>)
                  \<and> PreparedData (sharedState k') (ResourceClaim.UID claim) =
                      PreparedData (sharedState k) (ResourceClaim.UID claim)))"
proof (intro conjI impI)
  show p: "prepareDevice claim =
           Inl (Errorf ''claim %s has no allocated devices'' [Str (ResourceClaim.Name claim)])"
    using assms by (auto simp: prepareDevice_def split: option.splits list.splits)
  show "PrepareResourceClaims_loop (claim # rest) results0 k h =
             PrepareResourceClaims_loop rest
               (results0(ResourceClaim.UID claim \<mapsto>
                  \<lparr>Err = Some (Errorf ''claim %s has no allocated devices''
                                  [Str (ResourceClaim.Name claim)])\<rparr>)) k h"
    by (simp add: p)
next
  assume m: "claim \<in> set claims"
    and a: "\<forall>c \<in> set claims. ResourceClaim.UID c = ResourceClaim.UID claim \<longrightarrow>
             (case Allocation (Status c) of None \<Rightarrow> True | Some a \<Rightarrow> Results (Devices a) = [])"
  obtain results k' h' where
    l: "PrepareResourceClaims_loop claims Map.empty k h = (results, k', h')"
    by (cases "PrepareResourceClaims_loop claims Map.empty k h")
  have ex: "\<exists>c \<in> set claims. ResourceClaim.UID c = ResourceClaim.UID claim"
    using m by blast
  from PrepareResourceClaims_loop_no_devices [OF a l]
  show "case PrepareResourceClaims claims k h of
                ((results, r), k', h') \<Rightarrow>
                  r = None
                  \<and> (\<exists>c \<in> set claims. ResourceClaim.UID c = ResourceClaim.UID claim \<and>
                        results (ResourceClaim.UID claim) =
                          Some \<lparr>Err = Some (Errorf ''claim %s has no allocated devices''
                                               [Str (ResourceClaim.Name c)])\<rparr>)
                  \<and> PreparedData (sharedState k') (ResourceClaim.UID claim) =
                      PreparedData (sharedState k) (ResourceClaim.UID claim)"
    by (simp add: PrepareResourceClaims_def l ex)
qed

text \<open>
  Claim C4 on a batch of two claims: the one with a device is prepared, the one with an
  empty list of results gets the error and no entry.
\<close>

theorem PrepareResourceClaims_no_devices_witness:
  "claim_empty \<in> set [claim_w1, claim_empty]
   \<and> ResourceClaim.UID claim_w1 \<noteq> ResourceClaim.UID claim_empty
   \<and> map (Results \<circ> Devices) (case Allocation (Status claim_empty) of None \<Rightarrow> [] | Some a \<Rightarrow> [a])
        = [[]]
   \<and> (case PrepareResourceClaims [claim_w1, claim_empty]
              (NewNetworkDriver ''hostdevice.k8s.io'' ''node1'') [] of
            ((results, r), k', h') \<Rightarrow>
              r = None
              \<and> results ''uid-w2'' =
                  Some \<lparr>Err = Some (Errorf ''claim %s has no allocated devices'' [Str ''claim2''])\<rparr>
              \<and> PreparedData (sharedState k') ''uid-w2'' = None
              \<and> PreparedData (sharedState k') ''uid-w1'' = Some (AnyString ''eth-phys0''))"
proof -
  have a: "claim_empty \<in> set [claim_w1, claim_empty]" by simp
  have b: "\<forall>c \<in> set [claim_w1, claim_empty]. ResourceClaim.UID c = ResourceClaim.UID claim_empty \<longrightarrow>
             (case Allocation (Status c) of None \<Rightarrow> True | Some a \<Rightarrow> Results (Devices a) = [])"
    by (simp add: claim_w1_def claim_empty_def)
  have c: "ResourceClaim.UID claim_w1 \<noteq> ResourceClaim.UID claim_empty
           \<and> map (Results \<circ> Devices)
                 (case Allocation (Status claim_empty) of None \<Rightarrow> [] | Some a \<Rightarrow> [a]) = [[]]"
    by (simp add: claim_w1_def claim_empty_def)
  have d: "case Allocation (Status claim_empty) of None \<Rightarrow> True
           | Some a \<Rightarrow> Results (Devices a) = []"
    by (simp add: claim_empty_def)
  from PrepareResourceClaims_no_devices
         [OF d, where claims = "[claim_w1, claim_empty]"
            and k = "NewNetworkDriver ''hostdevice.k8s.io'' ''node1''" and h = "[]"] a b c
  show ?thesis
    by (simp add: PrepareResourceClaims_def prepareDevice_def claim_w1_def claim_empty_def
                  NewNetworkDriver_def)
qed

section \<open>What the stopping handler adds to a trace\<close>

lemma detach_calls_append: "detach_calls (xs @ ys) = detach_calls xs @ detach_calls ys"
  by (induction xs rule: detach_calls.induct) auto

lemma klog_errors_append: "klog_errors (xs @ ys) = klog_errors xs @ klog_errors ys"
  by (induction xs rule: klog_errors.induct) auto

lemma kernel_events_no_calls:
  "list_all kernel_event xs \<Longrightarrow>
     detach_calls xs = [] \<and> klog_errors xs = [] \<and> EvLock \<notin> set xs \<and> EvUnlock \<notin> set xs"
  by (induction xs rule: detach_calls.induct) auto

lemma call_args_simp: "call_args (ns, d, out, r) = (ns, d, out)"
  by (simp add: call_args_def)

lemma failures_simps:
  "failures [] = []"
  "failures ((ns, d, out, None) # cs) = failures cs"
  "failures ((ns, d, out, Some e) # cs) = e # failures cs"
  by (simp_all add: failures_def)

lemma cleanupDeviceForPod_string:
  assumes "cleanupDeviceForPod nl device ns pod (AnyString s) h = (r, h')"
  shows "\<exists>new. h' = h @ new \<and> EvLock \<notin> set new \<and> EvUnlock \<notin> set new
           \<and> detach_calls new = [(ns, s, s, r)] \<and> klog_errors new = []"
  using assms unfolding cleanupDeviceForPod_def Let_def
  by (auto split: prod.splits simp: detach_calls_append klog_errors_append
           dest!: NsDetachNetdev_events kernel_events_no_calls)

lemma StopPodSandbox_loop_string:
  "\<exists>new. StopPodSandbox_loop nl devices ns pod (AnyString s) h = h @ new
       \<and> EvLock \<notin> set new \<and> EvUnlock \<notin> set new
       \<and> map call_args (detach_calls new) = replicate (length devices) (ns, s, s)
       \<and> klog_errors new = failures (detach_calls new)"
proof (induction devices arbitrary: h)
  case Nil
  show ?case by (simp add: failures_simps)
next
  case (Cons device rest)
  obtain r h1 where c: "cleanupDeviceForPod nl device ns pod (AnyString s) h = (r, h1)"
    by (cases "cleanupDeviceForPod nl device ns pod (AnyString s) h")
  from cleanupDeviceForPod_string [OF c] obtain n1 where
    n1: "EvLock \<notin> set n1" "EvUnlock \<notin> set n1"
        "detach_calls n1 = [(ns, s, s, r)]" "klog_errors n1 = []"
    and c': "cleanupDeviceForPod nl device ns pod (AnyString s) h = (r, h @ n1)"
    using c by blast
  show ?case
  proof (cases r)
    case None
    from Cons.IH [of "h @ n1"] obtain n2 where
      n2: "StopPodSandbox_loop nl rest ns pod (AnyString s) (h @ n1) = (h @ n1) @ n2"
          "EvLock \<notin> set n2" "EvUnlock \<notin> set n2"
          "map call_args (detach_calls n2) = replicate (length rest) (ns, s, s)"
          "klog_errors n2 = failures (detach_calls n2)"
      by blast
    show ?thesis
      by (rule exI [of _ "n1 @ n2"])
         (simp add: c' None n1 n2 detach_calls_append klog_errors_append
                    failures_simps call_args_simp)
  next
    case (Some e)
    let ?l = "EvKlogErrorf ''failed to cleanup device %s for pod %s: %v''
                [Str (AllocatedDevice.Name device), Str (PodSandbox.Name pod)] e"
    from Cons.IH [of "h @ n1 @ [?l]"] obtain n2 where
      n2: "StopPodSandbox_loop nl rest ns pod (AnyString s) (h @ n1 @ [?l]) = (h @ n1 @ [?l]) @ n2"
          "EvLock \<notin> set n2" "EvUnlock \<notin> set n2"
          "map call_args (detach_calls n2) = replicate (length rest) (ns, s, s)"
          "klog_errors n2 = failures (detach_calls n2)"
      by blast
    show ?thesis
      by (rule exI [of _ "n1 @ [?l] @ n2"])
         (simp add: c' Some n1 n2 detach_calls_append klog_errors_append
                    failures_simps call_args_simp)
  qed
qed

lemma StopPodSandbox_loop_not_string:
  assumes "\<forall>s. pd \<noteq> AnyString s"
  shows "\<exists>new. StopPodSandbox_loop nl devices ns pod pd h = h @ new
       \<and> EvLock \<notin> set new \<and> EvUnlock \<notin> set new \<and> list_all (\<lambda>e. \<not> kernel_event e) new
       \<and> detach_calls new = []
       \<and> klog_errors new = replicate (length devices)
            (Errorf ''invalid prepared data type: expected string, got %T'' [Str (typeName pd)])"
proof (induction devices arbitrary: h)
  case Nil
  show ?case by simp
next
  case (Cons device rest)
  let ?e = "Errorf ''invalid prepared data type: expected string, got %T'' [Str (typeName pd)]"
  let ?l = "EvKlogErrorf ''failed to cleanup device %s for pod %s: %v''
                [Str (AllocatedDevice.Name device), Str (PodSandbox.Name pod)] ?e"
  have c: "cleanupDeviceForPod nl device ns pod pd h = (Some ?e, h)"
    using assms by (cases pd) (simp_all add: cleanupDeviceForPod_def)
  from Cons.IH [of "h @ [?l]"] obtain n2 where
    n2: "StopPodSandbox_loop nl rest ns pod pd (h @ [?l]) = (h @ [?l]) @ n2"
        "EvLock \<notin> set n2" "EvUnlock \<notin> set n2" "list_all (\<lambda>e. \<not> kernel_event e) n2"
        "detach_calls n2 = []"
        "klog_errors n2 = replicate (length rest) ?e"
    by blast
  show ?case
    by (rule exI [of _ "[?l] @ n2"]) (simp add: c n2)
qed

lemma StopPodSandbox_loop_events:
  "\<exists>new. StopPodSandbox_loop nl devices ns pod pd h = h @ new
       \<and> EvLock \<notin> set new \<and> EvUnlock \<notin> set new"
proof (cases "\<exists>s. pd = AnyString s")
  case True
  then obtain s where "pd = AnyString s" by blast
  with StopPodSandbox_loop_string [of nl devices ns pod s h] show ?thesis by blast
next
  case False
  then have "\<forall>s. pd \<noteq> AnyString s" by blast
  from StopPodSandbox_loop_not_string [OF this, of nl devices ns pod h] show ?thesis by blast
qed

lemma detach_calls_real_append:
  "detach_calls_real nl h (xs @ ys) =
     (detach_calls_real nl h xs \<and> detach_calls_real nl (h @ xs) ys)"
  by (induction nl h xs rule: detach_calls_real.induct) simp_all

lemma detach_calls_real_no_calls:
  "detach_calls xs = [] \<Longrightarrow> detach_calls_real nl h xs"
  by (induction nl h xs rule: detach_calls_real.induct) simp_all

lemma cleanupDeviceForPod_string_real:
  assumes "cleanupDeviceForPod nl device ns pod (AnyString s) h = (r, h')"
  shows "\<exists>ks. h' = h @ ks @ [EvNsDetachNetdev ns s s r] \<and> list_all kernel_event ks
           \<and> NsDetachNetdev nl ns s s h = (r, h @ ks)"
proof -
  obtain r1 h1 where d: "NsDetachNetdev nl ns s s h = (r1, h1)"
    by (cases "NsDetachNetdev nl ns s s h")
  from NsDetachNetdev_events [OF d] obtain ks where
    ks: "h1 = h @ ks" "list_all kernel_event ks" by blast
  from assms d have "r = r1" "h' = h1 @ [EvNsDetachNetdev ns s s r1]"
    by (auto simp: cleanupDeviceForPod_def)
  with d ks show ?thesis by auto
qed

lemma StopPodSandbox_loop_string_real:
  "\<exists>new. StopPodSandbox_loop nl devices ns pod (AnyString s) h = h @ new
         \<and> detach_calls_real nl h new"
proof (induction devices arbitrary: h)
  case Nil
  show ?case by simp
next
  case (Cons device rest)
  obtain r h1 where c: "cleanupDeviceForPod nl device ns pod (AnyString s) h = (r, h1)"
    by (cases "cleanupDeviceForPod nl device ns pod (AnyString s) h")
  from cleanupDeviceForPod_string_real [OF c] obtain ks where
    ks: "list_all kernel_event ks" "NsDetachNetdev nl ns s s h = (r, h @ ks)"
    and c': "cleanupDeviceForPod nl device ns pod (AnyString s) h =
               (r, h @ ks @ [EvNsDetachNetdev ns s s r])"
    using c by blast
  have k0: "detach_calls_real nl h ks"
    using ks(1) by (intro detach_calls_real_no_calls) (simp add: kernel_events_no_calls)
  have m: "list_ex (\<lambda>i. NsDetachNetdev nl ns s s (take i (h @ ks)) = (r, h @ ks))
             [0..<Suc (length (h @ ks))]"
    unfolding list_ex_iff by (rule bexI [of _ "length h"]) (simp_all add: ks(2))
  show ?case
  proof (cases r)
    case None
    from Cons.IH [of "h @ ks @ [EvNsDetachNetdev ns s s r]"] obtain n2 where
      n2: "StopPodSandbox_loop nl rest ns pod (AnyString s) (h @ ks @ [EvNsDetachNetdev ns s s r]) =
             (h @ ks @ [EvNsDetachNetdev ns s s r]) @ n2"
          "detach_calls_real nl (h @ ks @ [EvNsDetachNetdev ns s s r]) n2"
      by blast
    show ?thesis
      using k0 m n2
      by (intro exI [of _ "ks @ [EvNsDetachNetdev ns s s r] @ n2"])
         (simp add: c' None detach_calls_real_append)
  next
    case (Some e)
    let ?l = "EvKlogErrorf ''failed to cleanup device %s for pod %s: %v''
                [Str (AllocatedDevice.Name device), Str (PodSandbox.Name pod)] e"
    from Cons.IH [of "h @ ks @ [EvNsDetachNetdev ns s s r, ?l]"] obtain n2 where
      n2: "StopPodSandbox_loop nl rest ns pod (AnyString s) (h @ ks @ [EvNsDetachNetdev ns s s r, ?l]) =
             (h @ ks @ [EvNsDetachNetdev ns s s r, ?l]) @ n2"
          "detach_calls_real nl (h @ ks @ [EvNsDetachNetdev ns s s r, ?l]) n2"
      by blast
    show ?thesis
      using k0 m n2
      by (intro exI [of _ "ks @ [EvNsDetachNetdev ns s s r, ?l] @ n2"])
         (simp add: c' Some detach_calls_real_append)
  qed
qed

lemma StopPodSandbox_loop_not_string_eq:
  assumes "\<forall>s. pd \<noteq> AnyString s"
  shows "StopPodSandbox_loop nl devices ns pod pd h =
           h @ map (\<lambda>device. EvKlogErrorf ''failed to cleanup device %s for pod %s: %v''
                      [Str (AllocatedDevice.Name device), Str (PodSandbox.Name pod)]
                      (Errorf ''invalid prepared data type: expected string, got %T''
                         [Str (typeName pd)])) devices"
proof (induction devices arbitrary: h)
  case Nil
  show ?case by simp
next
  case (Cons device rest)
  have c: "cleanupDeviceForPod nl device ns pod pd h =
             (Some (Errorf ''invalid prepared data type: expected string, got %T''
                      [Str (typeName pd)]), h)"
    using assms by (cases pd) (simp_all add: cleanupDeviceForPod_def)
  show ?case by (simp add: c Cons.IH)
qed

text \<open>The definitions to unfold when the program is run on the workloads above.\<close>

lemmas run_defs =
  StopPodSandbox_def StopPodSandbox_loop.simps cleanupDeviceForPod_def RunPodSandbox_def
  RunPodSandbox_loop.simps configureDeviceForPod_def
  NsDetachNetdev_def detach_in_ns_def detach_move_def detach_request_def detach_ifName_def
  NsAttachNetdev_def attach_socket_def attach_move_def attach_in_ns_def attach_request_def
  attach_ifName_def
  getNetworkNamespace_def GetNamespaces_def devices_of_def preparedData_of_def
  kernel_def kernel_flaky_def link_plain_def LinkAttrs_Named_def
  pod_w1_def pod_nonet_def driver_w1_def Let_def

section \<open>Detach is best effort\<close>

text \<open>
  Claim C7: \<^verbatim>\<open>StopPodSandbox\<close> goes through all the allocated devices whatever happens to
  any of them, and returns no error and leaves the driver as it was.  With a prepared
  device name it calls \<^verbatim>\<open>NsDetachNetdev\<close> once for every device, whatever the earlier
  calls returned: the trace holds one entry per device, every entry stands for a call
  the relocation function really made, with the result it really gave, and the errors
  of the failed calls are the errors written to the log, in order.  Without a prepared
  device name the cleanup of every device fails before any call, and the handler writes
  one line to the log for each device, in order, and nothing else.
\<close>

theorem StopPodSandbox_best_effort:
  "(case StopPodSandbox nl pod k h of
      (r, k', h') \<Rightarrow>
        r = None \<and> k' = k \<and> take (length h) h' = h
        \<and> detach_calls_real nl h (drop (length h) h')
        \<and> (\<forall>s. preparedData_of k (Uid pod) = AnyString s \<longrightarrow>
              map call_args (detach_calls (drop (length h) h')) =
                replicate (length (devices_of k (Uid pod))) (getNetworkNamespace pod, s, s)
              \<and> klog_errors (drop (length h) h') = failures (detach_calls (drop (length h) h')))
        \<and> ((\<forall>s. preparedData_of k (Uid pod) \<noteq> AnyString s) \<longrightarrow>
              drop (length h) h' =
                EvLock #
                map (\<lambda>device. EvKlogErrorf ''failed to cleanup device %s for pod %s: %v''
                       [Str (AllocatedDevice.Name device), Str (PodSandbox.Name pod)]
                       (Errorf ''invalid prepared data type: expected string, got %T''
                          [Str (typeName (preparedData_of k (Uid pod)))]))
                    (devices_of k (Uid pod))
                @ [EvUnlock]))"
proof -
  let ?ds = "devices_of k (Uid pod)" and ?ns = "getNetworkNamespace pod"
  let ?pd = "preparedData_of k (Uid pod)"
  let ?new = "drop (length h) (snd (snd (StopPodSandbox nl pod k h)))"
  obtain mid where
    mid: "StopPodSandbox_loop nl ?ds ?ns pod ?pd (h @ [EvLock]) = (h @ [EvLock]) @ mid"
    using StopPodSandbox_loop_events by blast
  have new: "?new = EvLock # mid @ [EvUnlock]"
    by (simp add: StopPodSandbox_def Let_def mid)
  have base: "fst (StopPodSandbox nl pod k h) = None
              \<and> fst (snd (StopPodSandbox nl pod k h)) = k
              \<and> take (length h) (snd (snd (StopPodSandbox nl pod k h))) = h"
    using mid by (simp add: StopPodSandbox_def Let_def)
  have real: "detach_calls_real nl h ?new"
  proof (cases "\<exists>s. ?pd = AnyString s")
    case True
    then obtain s where s: "?pd = AnyString s" by blast
    from StopPodSandbox_loop_string_real [of nl ?ds ?ns pod s "h @ [EvLock]"] obtain n where
      "StopPodSandbox_loop nl ?ds ?ns pod (AnyString s) (h @ [EvLock]) = (h @ [EvLock]) @ n"
      "detach_calls_real nl (h @ [EvLock]) n"
      by blast
    with mid s have "detach_calls_real nl (h @ [EvLock]) mid" by simp
    then show ?thesis
      by (simp add: new detach_calls_real_append)
  next
    case False
    then have n: "\<forall>s. ?pd \<noteq> AnyString s" by blast
    from StopPodSandbox_loop_not_string [OF n, of nl ?ds ?ns pod "h @ [EvLock]"] mid
    have "detach_calls mid = []" by auto
    then have "detach_calls_real nl (h @ [EvLock]) mid"
      by (rule detach_calls_real_no_calls)
    then show ?thesis
      by (simp add: new detach_calls_real_append)
  qed
  have str: "map call_args (detach_calls ?new) = replicate (length ?ds) (?ns, s, s)
             \<and> klog_errors ?new = failures (detach_calls ?new)"
    if s: "?pd = AnyString s" for s
  proof -
    obtain n where
      "StopPodSandbox_loop nl ?ds ?ns pod (AnyString s) (h @ [EvLock]) = (h @ [EvLock]) @ n"
      "map call_args (detach_calls n) = replicate (length ?ds) (?ns, s, s)"
      "klog_errors n = failures (detach_calls n)"
      using StopPodSandbox_loop_string by blast
    with mid s have "map call_args (detach_calls mid) = replicate (length ?ds) (?ns, s, s)"
      "klog_errors mid = failures (detach_calls mid)" by simp_all
    then show ?thesis
      by (simp add: new detach_calls_append klog_errors_append)
  qed
  have nostr: "?new =
                EvLock #
                map (\<lambda>device. EvKlogErrorf ''failed to cleanup device %s for pod %s: %v''
                       [Str (AllocatedDevice.Name device), Str (PodSandbox.Name pod)]
                       (Errorf ''invalid prepared data type: expected string, got %T''
                          [Str (typeName ?pd)])) ?ds
                @ [EvUnlock]"
    if n: "\<forall>s. ?pd \<noteq> AnyString s"
    using StopPodSandbox_loop_not_string_eq [OF n, of nl ?ds ?ns pod "h @ [EvLock]"] mid
    by (simp add: new)
  from base real str nostr show ?thesis
    by (simp add: case_prod_beta)
qed

text \<open>
  Claim C7 on a pod with two devices.  On a kernel where the first detach fails and the
  second succeeds, both calls are made (the namespace path is opened twice) and the one
  failure is logged.  On a driver without prepared data, a line is logged for each of
  the two devices.
\<close>

theorem StopPodSandbox_best_effort_witness:
  "preparedData_of driver_w1 (Uid pod_w1) = AnyString ''eth-phys0''
   \<and> devices_of driver_w1 (Uid pod_w1) = [device_A, device_B]
   \<and> (case StopPodSandbox kernel_flaky pod_w1 driver_w1 [] of
        (r, k', h') \<Rightarrow>
          r = None \<and> k' = driver_w1
          \<and> detach_calls_real kernel_flaky [] h'
          \<and> length (filter (\<lambda>e. e = EvGetFromPath ''/run/ns/w1'') h') = 2
          \<and> detach_calls h' =
              [(''/run/ns/w1'', ''eth-phys0'', ''eth-phys0'',
                Some (Errorf_w
                  ''could not get network namespace from path %s for network device %s : %w''
                  [Str ''/run/ns/w1'', Str ''eth-phys0'']
                  (ErrKernel ''no such file or directory''))),
               (''/run/ns/w1'', ''eth-phys0'', ''eth-phys0'', None)]
          \<and> klog_errors h' =
              [Errorf_w
                  ''could not get network namespace from path %s for network device %s : %w''
                  [Str ''/run/ns/w1'', Str ''eth-phys0'']
                  (ErrKernel ''no such file or directory'')])
   \<and> preparedData_of driver_unprepared (Uid pod_w1) = AnyNil
   \<and> StopPodSandbox kernel_flaky pod_w1 driver_unprepared [] =
       (None, driver_unprepared,
        [EvLock,
         EvKlogErrorf ''failed to cleanup device %s for pod %s: %v'' [Str ''A'', Str ''pod1'']
           (Errorf ''invalid prepared data type: expected string, got %T'' [Str ''<nil>'']),
         EvKlogErrorf ''failed to cleanup device %s for pod %s: %v'' [Str ''B'', Str ''pod1'']
           (Errorf ''invalid prepared data type: expected string, got %T'' [Str ''<nil>'']),
         EvUnlock])"
proof -
  have a: "preparedData_of driver_w1 (Uid pod_w1) = AnyString ''eth-phys0''"
    by (simp add: preparedData_of_def driver_w1_def pod_w1_def)
  have b: "devices_of driver_w1 (Uid pod_w1) = [device_A, device_B]"
    by (simp add: devices_of_def driver_w1_def pod_w1_def)
  have c: "detach_calls (snd (snd (StopPodSandbox kernel_flaky pod_w1 driver_w1 []))) =
              [(''/run/ns/w1'', ''eth-phys0'', ''eth-phys0'',
                Some (Errorf_w
                  ''could not get network namespace from path %s for network device %s : %w''
                  [Str ''/run/ns/w1'', Str ''eth-phys0'']
                  (ErrKernel ''no such file or directory''))),
               (''/run/ns/w1'', ''eth-phys0'', ''eth-phys0'', None)]"
    by (simp add: run_defs)
  have d: "length (filter (\<lambda>e. e = EvGetFromPath ''/run/ns/w1'')
             (snd (snd (StopPodSandbox kernel_flaky pod_w1 driver_w1 [])))) = 2"
    by (simp add: run_defs)
  have e: "preparedData_of driver_unprepared (Uid pod_w1) = AnyNil"
    by (simp add: preparedData_of_def driver_unprepared_def pod_w1_def)
  have f: "devices_of driver_unprepared (Uid pod_w1) = [device_A, device_B]"
    by (simp add: devices_of_def driver_unprepared_def pod_w1_def)
  have g: "AllocatedDevice.Name device_A = ''A''" "AllocatedDevice.Name device_B = ''B''"
          "PodSandbox.Name pod_w1 = ''pod1''"
    by (simp_all add: device_A_def device_B_def pod_w1_def)
  from StopPodSandbox_best_effort [where nl = kernel_flaky and pod = pod_w1
                                     and k = driver_w1 and h = "[]"]
       StopPodSandbox_best_effort [where nl = kernel_flaky and pod = pod_w1
                                     and k = driver_unprepared and h = "[]"]
       a b c d e f g
  show ?thesis
    by (simp add: failures_simps split: prod.splits)
qed

section \<open>The lock and the kernel calls\<close>

lemma configureDeviceForPod_events:
  assumes "configureDeviceForPod nl device ns pod pd h = (r, h')"
  shows "\<exists>new. h' = h @ new \<and> EvLock \<notin> set new \<and> EvUnlock \<notin> set new"
  using assms unfolding configureDeviceForPod_def Let_def
  by (auto split: any.splits prod.splits dest!: NsAttachNetdev_events kernel_events_no_calls)

lemma RunPodSandbox_loop_events:
  "RunPodSandbox_loop nl devices ns pod pd h = (r, h') \<Longrightarrow>
     \<exists>new. h' = h @ new \<and> EvLock \<notin> set new \<and> EvUnlock \<notin> set new"
proof (induction devices arbitrary: h)
  case Nil
  then show ?case by simp
next
  case (Cons device rest)
  obtain r1 h1 where c: "configureDeviceForPod nl device ns pod pd h = (r1, h1)"
    by (cases "configureDeviceForPod nl device ns pod pd h")
  from configureDeviceForPod_events [OF c] obtain n1 where
    n1: "h1 = h @ n1" "EvLock \<notin> set n1" "EvUnlock \<notin> set n1" by blast
  show ?case
  proof (cases r1)
    case None
    with Cons.prems c have "RunPodSandbox_loop nl rest ns pod pd h1 = (r, h')" by simp
    from Cons.IH [OF this] obtain n2 where
      "h' = h1 @ n2" "EvLock \<notin> set n2" "EvUnlock \<notin> set n2" by blast
    with n1 show ?thesis by (intro exI [of _ "n1 @ n2"]) simp
  next
    case (Some e)
    with Cons.prems c have "h' = h1" by simp
    with n1 show ?thesis by blast
  qed
qed

lemma io_inside_lock_held:
  "EvLock \<notin> set mid \<Longrightarrow> EvUnlock \<notin> set mid \<Longrightarrow>
     io_inside_lock True (mid @ rest) = io_inside_lock True rest"
proof (induction mid)
  case Nil
  show ?case by simp
next
  case (Cons e es)
  then show ?case by (cases e) simp_all
qed

lemma io_inside_lock_section:
  "EvLock \<notin> set mid \<Longrightarrow> EvUnlock \<notin> set mid \<Longrightarrow>
     io_inside_lock False (EvLock # mid @ [EvUnlock])"
  by (simp add: io_inside_lock_held)

text \<open>
  For any store, reachable or not: what \<^verbatim>\<open>RunPodSandbox\<close> (for a pod with a network
  namespace) and \<^verbatim>\<open>StopPodSandbox\<close> add to a trace is one critical section, from the lock
  to the unlock deferred to the return, and whatever kernel calls they make lie inside
  it.
\<close>

lemma handlers_critical_section:
  "(case RunPodSandbox nl pod k h of
      (r, k', h') \<Rightarrow>
        take (length h) h' = h \<and> io_inside_lock False (drop (length h) h')
        \<and> (getNetworkNamespace pod \<noteq> [] \<longrightarrow>
             (\<exists>mid. drop (length h) h' = EvLock # mid @ [EvUnlock]
                    \<and> EvLock \<notin> set mid \<and> EvUnlock \<notin> set mid)))
   \<and> (case StopPodSandbox nl pod k h of
      (r, k', h') \<Rightarrow>
        take (length h) h' = h \<and> io_inside_lock False (drop (length h) h')
        \<and> (\<exists>mid. drop (length h) h' = EvLock # mid @ [EvUnlock]
                  \<and> EvLock \<notin> set mid \<and> EvUnlock \<notin> set mid))"
proof
  show "case RunPodSandbox nl pod k h of
      (r, k', h') \<Rightarrow>
        take (length h) h' = h \<and> io_inside_lock False (drop (length h) h')
        \<and> (getNetworkNamespace pod \<noteq> [] \<longrightarrow>
             (\<exists>mid. drop (length h) h' = EvLock # mid @ [EvUnlock]
                    \<and> EvLock \<notin> set mid \<and> EvUnlock \<notin> set mid))"
  proof (cases "getNetworkNamespace pod = []")
    case True
    then show ?thesis by (simp add: RunPodSandbox_def)
  next
    case False
    obtain r h1 where
      l: "RunPodSandbox_loop nl (devices_of k (Uid pod)) (getNetworkNamespace pod) pod
            (preparedData_of k (Uid pod)) (h @ [EvLock]) = (r, h1)"
      by (cases "RunPodSandbox_loop nl (devices_of k (Uid pod)) (getNetworkNamespace pod) pod
            (preparedData_of k (Uid pod)) (h @ [EvLock])")
    from RunPodSandbox_loop_events [OF l] obtain mid where
      mid: "h1 = (h @ [EvLock]) @ mid" "EvLock \<notin> set mid" "EvUnlock \<notin> set mid" by blast
    show ?thesis
      using False mid io_inside_lock_section [OF mid(2,3)]
      by (simp add: RunPodSandbox_def Let_def l)
  qed
next
  obtain mid where
    mid: "StopPodSandbox_loop nl (devices_of k (Uid pod)) (getNetworkNamespace pod) pod
            (preparedData_of k (Uid pod)) (h @ [EvLock]) = (h @ [EvLock]) @ mid"
         "EvLock \<notin> set mid" "EvUnlock \<notin> set mid"
    using StopPodSandbox_loop_events by blast
  show "case StopPodSandbox nl pod k h of
      (r, k', h') \<Rightarrow>
        take (length h) h' = h \<and> io_inside_lock False (drop (length h) h')
        \<and> (\<exists>mid. drop (length h) h' = EvLock # mid @ [EvUnlock]
                  \<and> EvLock \<notin> set mid \<and> EvUnlock \<notin> set mid)"
    using mid io_inside_lock_section [OF mid(2,3)]
    by (simp add: StopPodSandbox_def Let_def)
qed

section \<open>The stopping handler does not ask for a namespace\<close>

lemma getNetworkNamespace_none:
  "\<forall>ns \<in> set (GetNamespaces (Linux pod)). Type ns \<noteq> ''network'' \<Longrightarrow> getNetworkNamespace pod = []"
  by (simp add: getNetworkNamespace_def getNetworkNamespace_loop_none)

text \<open>
  Claim C10: for a pod without a namespace of type \<open>network\<close>, \<^verbatim>\<open>StopPodSandbox\<close> goes on
  with the empty path and returns no error, where \<^verbatim>\<open>RunPodSandbox\<close> returns one.  With a
  prepared device name it calls \<^verbatim>\<open>NsDetachNetdev\<close> on the empty path once for every
  allocated device and logs the errors these calls return; without one it calls nothing
  and logs one error for every allocated device.
\<close>

theorem StopPodSandbox_no_namespace_check:
  assumes "\<forall>ns \<in> set (GetNamespaces (Linux pod)). Type ns \<noteq> ''network''"
  shows "(case StopPodSandbox nl pod k h of
            (r, k', h') \<Rightarrow>
              r = None \<and> k' = k \<and> take (length h) h' = h
              \<and> (\<forall>s. preparedData_of k (Uid pod) = AnyString s \<longrightarrow>
                    map call_args (detach_calls (drop (length h) h')) =
                      replicate (length (devices_of k (Uid pod))) ([], s, s)
                    \<and> klog_errors (drop (length h) h') =
                        failures (detach_calls (drop (length h) h')))
              \<and> ((\<forall>s. preparedData_of k (Uid pod) \<noteq> AnyString s) \<longrightarrow>
                    detach_calls (drop (length h) h') = []
                    \<and> length (klog_errors (drop (length h) h')) =
                        length (devices_of k (Uid pod))))
         \<and> fst (RunPodSandbox nl pod k h) \<noteq> None"
proof -
  have ns: "getNetworkNamespace pod = []"
    using assms by (rule getNetworkNamespace_none)
  have str: "map call_args (detach_calls (drop (length h) (snd (snd (StopPodSandbox nl pod k h))))) =
               replicate (length (devices_of k (Uid pod))) ([], s, s)
             \<and> klog_errors (drop (length h) (snd (snd (StopPodSandbox nl pod k h)))) =
                 failures (detach_calls (drop (length h) (snd (snd (StopPodSandbox nl pod k h)))))"
    if s: "preparedData_of k (Uid pod) = AnyString s" for s
  proof -
    obtain new where
      "StopPodSandbox_loop nl (devices_of k (Uid pod)) [] pod (AnyString s) (h @ [EvLock]) =
         (h @ [EvLock]) @ new"
      "map call_args (detach_calls new) = replicate (length (devices_of k (Uid pod))) ([], s, s)"
      "klog_errors new = failures (detach_calls new)"
      using StopPodSandbox_loop_string by blast
    then show ?thesis
      by (simp add: StopPodSandbox_def Let_def ns s detach_calls_append klog_errors_append)
  qed
  have nostr: "detach_calls (drop (length h) (snd (snd (StopPodSandbox nl pod k h)))) = []
             \<and> length (klog_errors (drop (length h) (snd (snd (StopPodSandbox nl pod k h))))) =
                 length (devices_of k (Uid pod))"
    if n: "\<forall>s. preparedData_of k (Uid pod) \<noteq> AnyString s"
  proof -
    from StopPodSandbox_loop_not_string [OF n] obtain new where
      "StopPodSandbox_loop nl (devices_of k (Uid pod)) [] pod (preparedData_of k (Uid pod))
         (h @ [EvLock]) = (h @ [EvLock]) @ new"
      "detach_calls new = []"
      "klog_errors new = replicate (length (devices_of k (Uid pod)))
         (Errorf ''invalid prepared data type: expected string, got %T''
            [Str (typeName (preparedData_of k (Uid pod)))])"
      by blast
    then show ?thesis
      by (simp add: StopPodSandbox_def Let_def ns detach_calls_append klog_errors_append)
  qed
  obtain mid where
    mid: "StopPodSandbox_loop nl (devices_of k (Uid pod)) (getNetworkNamespace pod) pod
            (preparedData_of k (Uid pod)) (h @ [EvLock]) = (h @ [EvLock]) @ mid"
    using StopPodSandbox_loop_events by blast
  have base: "fst (StopPodSandbox nl pod k h) = None
              \<and> fst (snd (StopPodSandbox nl pod k h)) = k
              \<and> take (length h) (snd (snd (StopPodSandbox nl pod k h))) = h"
    using mid by (simp add: StopPodSandbox_def Let_def)
  have run: "fst (RunPodSandbox nl pod k h) \<noteq> None"
    by (simp add: RunPodSandbox_def ns)
  from base str nostr run show ?thesis
    by (simp add: case_prod_beta)
qed

text \<open>
  Claim C10 on a pod with a pid namespace only and two devices, on a kernel where the
  first detach fails and the second succeeds.
\<close>

theorem StopPodSandbox_no_namespace_check_witness:
  "map Type (GetNamespaces (Linux pod_nonet)) = [''pid'']
   \<and> preparedData_of driver_w1 (Uid pod_nonet) = AnyString ''eth-phys0''
   \<and> (case StopPodSandbox kernel_flaky pod_nonet driver_w1 [] of
        (r, k', h') \<Rightarrow>
          r = None \<and> k' = driver_w1
          \<and> detach_calls h' =
              [([], ''eth-phys0'', ''eth-phys0'',
                Some (Errorf_w
                  ''could not get network namespace from path %s for network device %s : %w''
                  [Str [], Str ''eth-phys0'']
                  (ErrKernel ''no such file or directory''))),
               ([], ''eth-phys0'', ''eth-phys0'', None)]
          \<and> klog_errors h' =
              [Errorf_w
                  ''could not get network namespace from path %s for network device %s : %w''
                  [Str [], Str ''eth-phys0'']
                  (ErrKernel ''no such file or directory'')])
   \<and> fst (RunPodSandbox kernel_flaky pod_nonet driver_w1 []) \<noteq> None"
proof -
  have a: "\<forall>ns \<in> set (GetNamespaces (Linux pod_nonet)). Type ns \<noteq> ''network''"
    by (simp add: pod_nonet_def GetNamespaces_def)
  have a': "map Type (GetNamespaces (Linux pod_nonet)) = [''pid'']"
    by (simp add: pod_nonet_def GetNamespaces_def)
  have b: "preparedData_of driver_w1 (Uid pod_nonet) = AnyString ''eth-phys0''"
    by (simp add: preparedData_of_def driver_w1_def pod_nonet_def)
  have c: "detach_calls (snd (snd (StopPodSandbox kernel_flaky pod_nonet driver_w1 []))) =
              [([], ''eth-phys0'', ''eth-phys0'',
                Some (Errorf_w
                  ''could not get network namespace from path %s for network device %s : %w''
                  [Str [], Str ''eth-phys0'']
                  (ErrKernel ''no such file or directory''))),
               ([], ''eth-phys0'', ''eth-phys0'', None)]"
    by (simp add: run_defs)
  from StopPodSandbox_no_namespace_check
         [OF a, where nl = kernel_flaky and k = driver_w1 and h = "[]"] a' b c
  show ?thesis
    by (simp add: failures_simps split: prod.splits)
qed

section \<open>Nothing fills the map of allocated devices\<close>

lemma PrepareResourceClaims_loop_inv:
  "PrepareResourceClaims_loop claims results k h = (results', k', h') \<Longrightarrow>
     PodDeviceConfig (sharedState k') = PodDeviceConfig (sharedState k)
     \<and> (\<exists>new. h' = h @ new \<and> list_all (\<lambda>e. e = EvLock \<or> e = EvUnlock) new)"
proof (induction claims arbitrary: results k h)
  case Nil
  then show ?case by simp
next
  case (Cons claim rest)
  show ?case
  proof (cases "prepareDevice claim")
    case (Inl err)
    with Cons.prems have "PrepareResourceClaims_loop rest
            (results(ResourceClaim.UID claim \<mapsto> \<lparr>Err = Some err\<rparr>)) k h = (results', k', h')"
      by simp
    from Cons.IH [OF this] show ?thesis .
  next
    case (Inr preparedData)
    with Cons.prems have "PrepareResourceClaims_loop rest
            (results(ResourceClaim.UID claim \<mapsto> \<lparr>Err = None\<rparr>))
            (k\<lparr>sharedState := (sharedState k)
                 \<lparr>PreparedData :=
                    (PreparedData (sharedState k))(ResourceClaim.UID claim \<mapsto> preparedData)\<rparr>\<rparr>)
            (h @ [EvLock, EvUnlock]) = (results', k', h')"
      by simp
    from Cons.IH [OF this] obtain new where
      "PodDeviceConfig (sharedState k') = PodDeviceConfig (sharedState k)"
      "h' = (h @ [EvLock, EvUnlock]) @ new" "list_all (\<lambda>e. e = EvLock \<or> e = EvUnlock) new"
      by auto
    then show ?thesis
      by (intro conjI exI [of _ "[EvLock, EvUnlock] @ new"]) simp_all
  qed
qed

lemma apply_op_PodDeviceConfig:
  "PodDeviceConfig (sharedState (fst (apply_op nl op (k, h)))) =
     (case op of
        OpRemovePodSandbox pod \<Rightarrow> (PodDeviceConfig (sharedState k))(Uid pod := None)
      | _ \<Rightarrow> PodDeviceConfig (sharedState k))"
proof (cases op)
  case (OpPrepareResourceClaims claims)
  obtain results k' h' where l: "PrepareResourceClaims_loop claims Map.empty k h = (results, k', h')"
    by (cases "PrepareResourceClaims_loop claims Map.empty k h")
  from PrepareResourceClaims_loop_inv [OF l] show ?thesis
    by (simp add: OpPrepareResourceClaims PrepareResourceClaims_def l)
next
  case (OpUnprepareResourceClaims claims)
  then show ?thesis
    by (simp add: UnprepareResourceClaims_def UnprepareResourceClaims_loop_eq)
next
  case (OpSynchronize pods)
  then show ?thesis
    by (simp add: Synchronize_def)
next
  case (OpRunPodSandbox pod)
  then show ?thesis
    by (simp add: RunPodSandbox_def Let_def split: prod.splits)
next
  case (OpStopPodSandbox pod)
  then show ?thesis
    by (simp add: StopPodSandbox_def Let_def)
next
  case (OpRemovePodSandbox pod)
  then show ?thesis
    by (simp add: RemovePodSandbox_def Let_def)
qed

lemma RunPodSandbox_no_devices:
  "PodDeviceConfig (sharedState k) (Uid pod) = None \<Longrightarrow>
     snd (snd (RunPodSandbox nl pod k h)) = (if getNetworkNamespace pod = [] then h else h @ [EvLock, EvUnlock])"
  by (simp add: RunPodSandbox_def Let_def devices_of_def)

lemma StopPodSandbox_no_devices:
  "PodDeviceConfig (sharedState k) (Uid pod) = None \<Longrightarrow>
     snd (snd (StopPodSandbox nl pod k h)) = h @ [EvLock, EvUnlock]"
  by (simp add: StopPodSandbox_def Let_def devices_of_def)

lemma apply_op_inv:
  assumes "PodDeviceConfig (sharedState k) = Map.empty"
      and "list_all (\<lambda>e. e = EvLock \<or> e = EvUnlock) h"
      and "apply_op nl op (k, h) = (k', h')"
  shows "PodDeviceConfig (sharedState k') = Map.empty
         \<and> list_all (\<lambda>e. e = EvLock \<or> e = EvUnlock) h'"
proof -
  have "PodDeviceConfig (sharedState k') = Map.empty"
    using apply_op_PodDeviceConfig [of nl op k h] assms(1,3)
    by (cases op) simp_all
  moreover have "list_all (\<lambda>e. e = EvLock \<or> e = EvUnlock) h'"
  proof (cases op)
    case (OpPrepareResourceClaims claims)
    obtain results k1 h1 where l: "PrepareResourceClaims_loop claims Map.empty k h = (results, k1, h1)"
      by (cases "PrepareResourceClaims_loop claims Map.empty k h")
    from PrepareResourceClaims_loop_inv [OF l] assms(2,3) show ?thesis
      by (auto simp: OpPrepareResourceClaims PrepareResourceClaims_def l)
  next
    case (OpUnprepareResourceClaims claims)
    have "list_all (\<lambda>e. e = EvLock \<or> e = EvUnlock) (concat (map (\<lambda>c. [EvLock, EvUnlock]) claims))"
      by (induction claims) simp_all
    with assms(2,3) show ?thesis
      by (auto simp: OpUnprepareResourceClaims UnprepareResourceClaims_def
                     UnprepareResourceClaims_loop_eq)
  next
    case (OpSynchronize pods)
    with assms(2,3) show ?thesis
      by (auto simp: Synchronize_def)
  next
    case (OpRunPodSandbox pod)
    have "PodDeviceConfig (sharedState k) (Uid pod) = None" by (simp add: assms(1))
    from RunPodSandbox_no_devices [OF this, of nl h] assms(2,3) show ?thesis
      by (auto simp: OpRunPodSandbox split: if_splits)
  next
    case (OpStopPodSandbox pod)
    have "PodDeviceConfig (sharedState k) (Uid pod) = None" by (simp add: assms(1))
    from StopPodSandbox_no_devices [OF this, of nl h] assms(2,3) show ?thesis
      by (auto simp: OpStopPodSandbox)
  next
    case (OpRemovePodSandbox pod)
    with assms(2,3) show ?thesis
      by (auto simp: RemovePodSandbox_def Let_def)
  qed
  ultimately show ?thesis by simp
qed

lemma run_driver_inv:
  "PodDeviceConfig (sharedState k) = Map.empty \<Longrightarrow>
   list_all (\<lambda>e. e = EvLock \<or> e = EvUnlock) h \<Longrightarrow>
   run_driver nl ops (k, h) = (k', h') \<Longrightarrow>
     PodDeviceConfig (sharedState k') = Map.empty
     \<and> list_all (\<lambda>e. e = EvLock \<or> e = EvUnlock) h'"
proof (induction ops arbitrary: k h)
  case Nil
  then show ?case by (simp add: run_driver_def)
next
  case (Cons op ops)
  obtain k1 h1 where s: "apply_op nl op (k, h) = (k1, h1)"
    by (cases "apply_op nl op (k, h)")
  from apply_op_inv [OF Cons.prems(1,2) s] have
    i: "PodDeviceConfig (sharedState k1) = Map.empty" "list_all (\<lambda>e. e = EvLock \<or> e = EvUnlock) h1"
    by simp_all
  from Cons.prems(3) s have "run_driver nl ops (k1, h1) = (k', h')"
    by (simp add: run_driver_def)
  from Cons.IH [OF i this] show ?case .
qed

text \<open>
  Claim C9: no handler adds an entry to \<^verbatim>\<open>PodDeviceConfig\<close>; the only one that changes it
  is \<^verbatim>\<open>RemovePodSandbox\<close>, which deletes.  So after any sequence of calls on a new driver
  the map is empty, the list of devices read for any pod is empty, the whole trace
  consists of lock and unlock events, and a further \<^verbatim>\<open>RunPodSandbox\<close> or
  \<^verbatim>\<open>StopPodSandbox\<close> adds a lock and an unlock at most: the relocation functions are never
  called.
\<close>

theorem PodDeviceConfig_never_filled:
  "PodDeviceConfig (sharedState (fst (apply_op nl op (k, h)))) =
     (case op of
        OpRemovePodSandbox pod' \<Rightarrow> (PodDeviceConfig (sharedState k))(Uid pod' := None)
      | _ \<Rightarrow> PodDeviceConfig (sharedState k))
   \<and> (case run_driver nl ops (NewNetworkDriver dn nn, []) of
        (k', h') \<Rightarrow>
          PodDeviceConfig (sharedState k') = Map.empty
          \<and> devices_of k' uid = []
          \<and> list_all (\<lambda>e. e = EvLock \<or> e = EvUnlock) h'
          \<and> snd (snd (RunPodSandbox nl pod k' h')) =
              (if getNetworkNamespace pod = [] then h' else h' @ [EvLock, EvUnlock])
          \<and> snd (snd (StopPodSandbox nl pod k' h')) = h' @ [EvLock, EvUnlock])"
proof -
  obtain k' h' where r: "run_driver nl ops (NewNetworkDriver dn nn, []) = (k', h')"
    by (cases "run_driver nl ops (NewNetworkDriver dn nn, [])")
  have "PodDeviceConfig (sharedState (NewNetworkDriver dn nn)) = Map.empty"
    by (simp add: NewNetworkDriver_def)
  from run_driver_inv [OF this _ r] have
    i: "PodDeviceConfig (sharedState k') = Map.empty" "list_all (\<lambda>e. e = EvLock \<or> e = EvUnlock) h'"
    by simp_all
  have n: "PodDeviceConfig (sharedState k') (Uid pod) = None" by (simp add: i(1))
  show ?thesis
    using apply_op_PodDeviceConfig [of nl op k h] i
          RunPodSandbox_no_devices [OF n, of nl h'] StopPodSandbox_no_devices [OF n, of nl h']
    by (simp add: r devices_of_def)
qed

text \<open>
  Claim C9 on the life of one pod: its claim is prepared, then the pod is synchronized,
  run, stopped and removed; the kernel is never called.
\<close>

theorem PodDeviceConfig_never_filled_witness:
  "(case run_driver kernel_flaky
           [OpPrepareResourceClaims [claim_w1], OpSynchronize [pod_w1], OpRunPodSandbox pod_w1,
            OpStopPodSandbox pod_w1, OpRemovePodSandbox pod_w1]
           (NewNetworkDriver ''hostdevice.k8s.io'' ''node1'', []) of
        (k', h') \<Rightarrow>
          PodDeviceConfig (sharedState k') = Map.empty
          \<and> devices_of k' ''uid-w1'' = []
          \<and> list_all (\<lambda>e. e = EvLock \<or> e = EvUnlock) h'
          \<and> snd (snd (RunPodSandbox kernel_flaky pod_w1 k' h')) = h' @ [EvLock, EvUnlock]
          \<and> snd (snd (StopPodSandbox kernel_flaky pod_w1 k' h')) = h' @ [EvLock, EvUnlock])
   \<and> snd (run_driver kernel_flaky
           [OpPrepareResourceClaims [claim_w1], OpSynchronize [pod_w1], OpRunPodSandbox pod_w1,
            OpStopPodSandbox pod_w1, OpRemovePodSandbox pod_w1]
           (NewNetworkDriver ''hostdevice.k8s.io'' ''node1'', [])) =
       [EvLock, EvUnlock, EvLock, EvUnlock, EvLock, EvUnlock, EvLock, EvUnlock]"
proof -
  have a: "getNetworkNamespace pod_w1 \<noteq> []"
    by (simp add: getNetworkNamespace_def GetNamespaces_def pod_w1_def)
  have b: "snd (run_driver kernel_flaky
           [OpPrepareResourceClaims [claim_w1], OpSynchronize [pod_w1], OpRunPodSandbox pod_w1,
            OpStopPodSandbox pod_w1, OpRemovePodSandbox pod_w1]
           (NewNetworkDriver ''hostdevice.k8s.io'' ''node1'', [])) =
       [EvLock, EvUnlock, EvLock, EvUnlock, EvLock, EvUnlock, EvLock, EvUnlock]"
    by (simp add: run_driver_def PrepareResourceClaims_def prepareDevice_def claim_w1_def
          NewNetworkDriver_def RemovePodSandbox_def Synchronize_def run_defs)
  from PodDeviceConfig_never_filled
         [where nl = kernel_flaky and dn = "''hostdevice.k8s.io''" and nn = "''node1''"
            and pod = pod_w1 and uid = "''uid-w1''"
            and ops = "[OpPrepareResourceClaims [claim_w1], OpSynchronize [pod_w1],
                        OpRunPodSandbox pod_w1, OpStopPodSandbox pod_w1,
                        OpRemovePodSandbox pod_w1]"]
       a b
  show ?thesis
    by (simp split: prod.splits)
qed

section \<open>No kernel call while the lock is held\<close>




end
